theory Spec2Isabelle
  imports Main "HOL-Library.Word"
begin

section \<open>Solidity values, the call context and reverts\<close>

text \<open>
  The four contracts (PaymentProcessor, RecurringPayment, TokenRegistry, DocumentRegistry)
  are Solidity 0.8 contracts. Their value types are fixed-width words: \<open>bytes32\<close> and
  \<open>uint256\<close> are 256-bit, \<open>address\<close> is 160-bit, \<open>uint8\<close> is 8-bit. A storage
  \<open>mapping\<close> is a total function whose value at an unwritten key is the zero value of
  its type. Arithmetic on \<open>uint256\<close> is checked: an overflow or underflow reverts with
  \<open>Panic(0x11)\<close>, which is written out at every operation below.
\<close>

type_synonym bytes32 = "256 word"
type_synonym uint256 = "256 word"
type_synonym address = "160 word"
type_synonym uint8 = "8 word"
type_synonym bytes = "8 word list"

text \<open>The role identifiers; in the source each is the hash of its own name.\<close>

datatype role =
    DEFAULT_ADMIN_ROLE
  | ADMIN_ROLE
  | PAYMENT_MANAGER_ROLE
  | PRICE_FEEDER_ROLE
  | DOCUMENT_MANAGER_ROLE

text \<open>
  Every way a call can abort. \<open>Revert\<close> carries the reason string of a failed
  \<open>require\<close>; \<open>AccessControlUnauthorizedAccount\<close> is what the \<open>onlyRole\<close> modifier
  raises; \<open>Panic\<close> is a checked-arithmetic failure; the others come from the signature
  recovery and from the token contract.
\<close>

datatype error =
    Revert string
  | AccessControlUnauthorizedAccount address role
  | Panic
  | ECDSAInvalidSignature
  | ERC20InsufficientAllowance
  | ERC20InsufficientBalance
  | ERC20InvalidSender
  | ERC20InvalidReceiver
  | ERC20InvalidApprover
  | ERC20InvalidSpender

text \<open>
  The error taxonomy of the specification (section 7), applied to the reverts above.
  A revert that the taxonomy does not name is \<open>Unclassified\<close>.
\<close>

datatype error_kind =
    ValidationError
  | AuthorizationError
  | StateConflictError
  | TransferError
  | Unclassified

definition validation_reasons :: "string list" where
  "validation_reasons =
     [''Invalid payee'', ''Invalid token'', ''Amount must be greater than 0'',
      ''Array length mismatch'', ''Invalid document hash'',
      ''Frequency must be greater than 0'', ''First payment must be in future'',
      ''Invalid fee collector'', ''Invalid token registry'', ''Invalid payment processor'',
      ''Symbol cannot be empty'', ''Invalid token address'', ''Invalid feed address'',
      ''Fee too high'']"

definition authorization_reasons :: "string list" where
  "authorization_reasons = [''Invalid signature'', ''Not authorized'']"

definition conflict_reasons :: "string list" where
  "conflict_reasons =
     [''Payment ID already used'', ''Payment already processed'', ''Payment is not active'',
      ''Payment not due yet'', ''Document already registered'', ''Document already revoked'',
      ''ID already exists'', ''Token already exists'']"

fun kind_of :: "error \<Rightarrow> error_kind" where
  "kind_of (Revert reason) =
     (if reason \<in> set validation_reasons then ValidationError
      else if reason \<in> set authorization_reasons then AuthorizationError
      else if reason \<in> set conflict_reasons then StateConflictError
      else Unclassified)"
| "kind_of (AccessControlUnauthorizedAccount a r) = AuthorizationError"
| "kind_of Panic = Unclassified"
| "kind_of ECDSAInvalidSignature = AuthorizationError"
| "kind_of ERC20InsufficientAllowance = TransferError"
| "kind_of ERC20InsufficientBalance = TransferError"
| "kind_of ERC20InvalidSender = TransferError"
| "kind_of ERC20InvalidReceiver = TransferError"
| "kind_of ERC20InvalidApprover = TransferError"
| "kind_of ERC20InvalidSpender = TransferError"

text \<open>
  What a call sees of its environment: the caller, the block time and the address of the
  contract that is executing.
\<close>

record ctx =
  msg_sender :: address
  block_timestamp :: uint256
  this_address :: address

text \<open>
  A call is a function from the state to an error or the new state. The EVM discards
  every write of a call that reverts, so the state after a transaction is the old state
  when the call fails.
\<close>

definition transact :: "('s \<Rightarrow> error + 's) \<Rightarrow> 's \<Rightarrow> 's \<times> error option" where
  "transact f s = (case f s of Inl e \<Rightarrow> (s, Some e) | Inr s' \<Rightarrow> (s', None))"

text \<open>AccessControl's role table and its \<open>hasRole\<close>.\<close>

type_synonym roles = "role \<Rightarrow> address \<Rightarrow> bool"

definition hasRole :: "roles \<Rightarrow> role \<Rightarrow> address \<Rightarrow> bool" where
  "hasRole rs r account = rs r account"

definition grantRole' :: "roles \<Rightarrow> role \<Rightarrow> address \<Rightarrow> roles" where
  "grantRole' rs r account = rs(r := (rs r)(account := True))"

definition no_roles :: roles where
  "no_roles = (\<lambda>r account. False)"

section \<open>DocumentRegistry\<close>

datatype DocumentType = Invoice | PayrollRecord | Contract | Receipt | Statement | Other

record Document =
  docHash :: bytes32
  registeredBy :: address
  doc_timestamp :: uint256
  docType :: DocumentType
  docReference :: string
  isRevoked :: bool

datatype DocumentEvent =
    DocumentRegistered bytes32 address DocumentType string
  | DocumentRevoked bytes32 address string

record DocumentRegistry =
  dr_roles :: roles
  documents :: "bytes32 \<Rightarrow> Document"
  userDocuments :: "address \<Rightarrow> bytes32 list"
  dr_events :: "DocumentEvent list"

definition zero_Document :: Document where
  "zero_Document =
     \<lparr>docHash = 0, registeredBy = 0, doc_timestamp = 0, docType = Invoice,
      docReference = [], isRevoked = False\<rparr>"

definition DocumentRegistry_constructor :: "ctx \<Rightarrow> DocumentRegistry" where
  "DocumentRegistry_constructor c =
     \<lparr>dr_roles =
        grantRole' (grantRole' (grantRole' no_roles DEFAULT_ADMIN_ROLE (msg_sender c))
          ADMIN_ROLE (msg_sender c)) DOCUMENT_MANAGER_ROLE (msg_sender c),
      documents = (\<lambda>h. zero_Document),
      userDocuments = (\<lambda>a. []),
      dr_events = []\<rparr>"

text \<open>
  The body shared by \<open>registerDocument\<close> and by one turn of the loop of
  \<open>batchRegisterDocuments\<close>: the two checks, the write, the index and the event.
\<close>

definition storeDocument ::
  "ctx \<Rightarrow> bytes32 \<Rightarrow> DocumentType \<Rightarrow> string \<Rightarrow> DocumentRegistry \<Rightarrow> error + DocumentRegistry" where
  "storeDocument c docHash' docType' docReference' s =
     (if docHash' = 0 then Inl (Revert ''Invalid document hash'')
      else if docHash (documents s docHash') \<noteq> 0 then Inl (Revert ''Document already registered'')
      else Inr (s\<lparr>documents := (documents s)(docHash' :=
                    \<lparr>docHash = docHash', registeredBy = msg_sender c,
                     doc_timestamp = block_timestamp c, docType = docType',
                     docReference = docReference', isRevoked = False\<rparr>),
                  userDocuments := (userDocuments s)(msg_sender c :=
                    userDocuments s (msg_sender c) @ [docHash']),
                  dr_events := dr_events s @
                    [DocumentRegistered docHash' (msg_sender c) docType' docReference']\<rparr>))"

definition registerDocument ::
  "ctx \<Rightarrow> bytes32 \<Rightarrow> DocumentType \<Rightarrow> string \<Rightarrow> DocumentRegistry \<Rightarrow> error + DocumentRegistry" where
  "registerDocument c docHash' docType' docReference' s =
     (if \<not> hasRole (dr_roles s) DOCUMENT_MANAGER_ROLE (msg_sender c)
      then Inl (AccessControlUnauthorizedAccount (msg_sender c) DOCUMENT_MANAGER_ROLE)
      else storeDocument c docHash' docType' docReference' s)"

text \<open>
  The loop of \<open>batchRegisterDocuments\<close> runs over the index \<open>i\<close> of three arrays whose
  lengths have been checked equal, so it is a recursion over the list of the triples
  \<open>(_docHashes[i], _docTypes[i], _docReferences[i])\<close>.
\<close>

fun registerLoop ::
  "ctx \<Rightarrow> (bytes32 \<times> DocumentType \<times> string) list \<Rightarrow> DocumentRegistry \<Rightarrow> error + DocumentRegistry" where
  "registerLoop c [] s = Inr s"
| "registerLoop c ((h, t, r) # rest) s =
     (case storeDocument c h t r s of
        Inl e \<Rightarrow> Inl e
      | Inr s' \<Rightarrow> registerLoop c rest s')"

definition batchRegisterDocuments ::
  "ctx \<Rightarrow> bytes32 list \<Rightarrow> DocumentType list \<Rightarrow> string list \<Rightarrow> DocumentRegistry
     \<Rightarrow> error + DocumentRegistry" where
  "batchRegisterDocuments c docHashes docTypes docReferences s =
     (if \<not> hasRole (dr_roles s) DOCUMENT_MANAGER_ROLE (msg_sender c)
      then Inl (AccessControlUnauthorizedAccount (msg_sender c) DOCUMENT_MANAGER_ROLE)
      else if length docHashes \<noteq> length docTypes then Inl (Revert ''Array length mismatch'')
      else if length docTypes \<noteq> length docReferences then Inl (Revert ''Array length mismatch'')
      else registerLoop c (zip docHashes (zip docTypes docReferences)) s)"

definition revokeDocument ::
  "ctx \<Rightarrow> bytes32 \<Rightarrow> string \<Rightarrow> DocumentRegistry \<Rightarrow> error + DocumentRegistry" where
  "revokeDocument c docHash' reason s =
     (if \<not> hasRole (dr_roles s) DOCUMENT_MANAGER_ROLE (msg_sender c)
      then Inl (AccessControlUnauthorizedAccount (msg_sender c) DOCUMENT_MANAGER_ROLE)
      else if \<not> docHash (documents s docHash') \<noteq> 0 then Inl (Revert ''Document not registered'')
      else if isRevoked (documents s docHash') then Inl (Revert ''Document already revoked'')
      else Inr (s\<lparr>documents := (documents s)(docHash' :=
                    (documents s docHash')\<lparr>isRevoked := True\<rparr>),
                  dr_events := dr_events s @ [DocumentRevoked docHash' (msg_sender c) reason]\<rparr>))"

text \<open>\<open>verifyDocument\<close> is a \<open>view\<close> function: it takes the state and returns a value.\<close>

definition verifyDocument :: "DocumentRegistry \<Rightarrow> bytes32 \<Rightarrow> bool \<times> bool \<times> Document" where
  "verifyDocument s docHash' =
     (let documentData = documents s docHash';
          exists = (docHash documentData \<noteq> 0);
          isValid = (exists \<and> \<not> isRevoked documentData)
      in (exists, isValid, documentData))"

definition getUserDocuments :: "DocumentRegistry \<Rightarrow> address \<Rightarrow> bytes32 list" where
  "getUserDocuments s user = userDocuments s user"

section \<open>Hashing and signature recovery\<close>

text \<open>
  \<open>keccak256\<close> and OpenZeppelin's \<open>ECDSA.recover\<close> are primitives of the platform, not
  code of the contracts. They are parameters of the model, so every property below holds
  for whatever functions they are. \<open>ECDSA_recover\<close> returns \<open>None\<close> where the library
  reverts (a malformed signature, or one that recovers the zero address).
\<close>

record env =
  keccak256 :: "bytes \<Rightarrow> bytes32"
  ECDSA_recover :: "bytes32 \<Rightarrow> bytes \<Rightarrow> address option"

text \<open>
  \<open>abi.encodePacked\<close>: a \<open>bytes32\<close> or \<open>uint256\<close> is its 32 bytes, an \<open>address\<close> its
  20 bytes, most significant first; a string is its bytes.
\<close>

definition be_bytes :: "nat \<Rightarrow> 'a::len word \<Rightarrow> bytes" where
  "be_bytes n w = map (\<lambda>i. ucast (drop_bit (8 * i) w)) (rev [0..<n])"

definition bytes_of_string :: "string \<Rightarrow> bytes" where
  "bytes_of_string s = map (\<lambda>c. of_nat (of_char c)) s"

datatype abi_value = B32 bytes32 | Addr address | U256 uint256 | Str string

fun packed :: "abi_value \<Rightarrow> bytes" where
  "packed (B32 w) = be_bytes 32 w"
| "packed (Addr a) = be_bytes 20 a"
| "packed (U256 n) = be_bytes 32 n"
| "packed (Str s) = bytes_of_string s"

definition encodePacked :: "abi_value list \<Rightarrow> bytes" where
  "encodePacked vs = concat (map packed vs)"

section \<open>TokenRegistry\<close>

record TokenInfo =
  symbol :: string
  ti_tokenAddress :: address
  decimals :: uint8
  isEnabled :: bool
  minimumTransferAmount :: uint256

record PriceFeed =
  feedAddress :: address
  lastPrice :: uint256
  lastUpdateTimestamp :: uint256

datatype TokenEvent =
    TokenAdded string address uint8 uint256
  | TokenUpdated string bool uint256
  | PriceFeedUpdated string address uint256

record TokenRegistry =
  tr_roles :: roles
  tokenInfos :: "string \<Rightarrow> TokenInfo"
  priceFeeds :: "string \<Rightarrow> PriceFeed"
  supportedTokens :: "string list"
  tr_events :: "TokenEvent list"

definition zero_TokenInfo :: TokenInfo where
  "zero_TokenInfo =
     \<lparr>symbol = [], ti_tokenAddress = 0, decimals = 0, isEnabled = False,
      minimumTransferAmount = 0\<rparr>"

definition zero_PriceFeed :: PriceFeed where
  "zero_PriceFeed = \<lparr>feedAddress = 0, lastPrice = 0, lastUpdateTimestamp = 0\<rparr>"

definition TokenRegistry_constructor :: "ctx \<Rightarrow> TokenRegistry" where
  "TokenRegistry_constructor c =
     \<lparr>tr_roles =
        grantRole' (grantRole' (grantRole' no_roles DEFAULT_ADMIN_ROLE (msg_sender c))
          ADMIN_ROLE (msg_sender c)) PRICE_FEEDER_ROLE (msg_sender c),
      tokenInfos = (\<lambda>k. zero_TokenInfo),
      priceFeeds = (\<lambda>k. zero_PriceFeed),
      supportedTokens = [],
      tr_events = []\<rparr>"

definition addToken ::
  "ctx \<Rightarrow> string \<Rightarrow> address \<Rightarrow> uint8 \<Rightarrow> uint256 \<Rightarrow> TokenRegistry \<Rightarrow> error + TokenRegistry" where
  "addToken c symbol' tokenAddress' decimals' minimumTransferAmount' s =
     (if \<not> hasRole (tr_roles s) ADMIN_ROLE (msg_sender c)
      then Inl (AccessControlUnauthorizedAccount (msg_sender c) ADMIN_ROLE)
      else if \<not> length (bytes_of_string symbol') > 0 then Inl (Revert ''Symbol cannot be empty'')
      else if tokenAddress' = 0 then Inl (Revert ''Invalid token address'')
      else if ti_tokenAddress (tokenInfos s symbol') \<noteq> 0 then Inl (Revert ''Token already exists'')
      else Inr (s\<lparr>tokenInfos := (tokenInfos s)(symbol' :=
                    \<lparr>symbol = symbol', ti_tokenAddress = tokenAddress', decimals = decimals',
                     isEnabled = True, minimumTransferAmount = minimumTransferAmount'\<rparr>),
                  supportedTokens := supportedTokens s @ [symbol'],
                  tr_events := tr_events s @
                    [TokenAdded symbol' tokenAddress' decimals' minimumTransferAmount']\<rparr>))"

definition updateToken ::
  "ctx \<Rightarrow> string \<Rightarrow> bool \<Rightarrow> uint256 \<Rightarrow> TokenRegistry \<Rightarrow> error + TokenRegistry" where
  "updateToken c symbol' isEnabled' minimumTransferAmount' s =
     (if \<not> hasRole (tr_roles s) ADMIN_ROLE (msg_sender c)
      then Inl (AccessControlUnauthorizedAccount (msg_sender c) ADMIN_ROLE)
      else if \<not> ti_tokenAddress (tokenInfos s symbol') \<noteq> 0 then Inl (Revert ''Token does not exist'')
      else Inr (s\<lparr>tokenInfos := (tokenInfos s)(symbol' :=
                    (tokenInfos s symbol')\<lparr>isEnabled := isEnabled',
                       minimumTransferAmount := minimumTransferAmount'\<rparr>),
                  tr_events := tr_events s @
                    [TokenUpdated symbol' isEnabled' minimumTransferAmount']\<rparr>))"

definition setPriceFeed ::
  "ctx \<Rightarrow> string \<Rightarrow> address \<Rightarrow> TokenRegistry \<Rightarrow> error + TokenRegistry" where
  "setPriceFeed c symbol' feedAddress' s =
     (if \<not> hasRole (tr_roles s) ADMIN_ROLE (msg_sender c)
      then Inl (AccessControlUnauthorizedAccount (msg_sender c) ADMIN_ROLE)
      else if \<not> ti_tokenAddress (tokenInfos s symbol') \<noteq> 0 then Inl (Revert ''Token does not exist'')
      else if feedAddress' = 0 then Inl (Revert ''Invalid feed address'')
      else Inr (s\<lparr>priceFeeds := (priceFeeds s)(symbol' :=
                    (priceFeeds s symbol')\<lparr>feedAddress := feedAddress'\<rparr>),
                  tr_events := tr_events s @
                    [PriceFeedUpdated symbol' feedAddress' (lastPrice (priceFeeds s symbol'))]\<rparr>))"

definition updatePrice ::
  "ctx \<Rightarrow> string \<Rightarrow> uint256 \<Rightarrow> TokenRegistry \<Rightarrow> error + TokenRegistry" where
  "updatePrice c symbol' price s =
     (if \<not> hasRole (tr_roles s) PRICE_FEEDER_ROLE (msg_sender c)
      then Inl (AccessControlUnauthorizedAccount (msg_sender c) PRICE_FEEDER_ROLE)
      else if \<not> ti_tokenAddress (tokenInfos s symbol') \<noteq> 0 then Inl (Revert ''Token does not exist'')
      else Inr (s\<lparr>priceFeeds := (priceFeeds s)(symbol' :=
                    (priceFeeds s symbol')\<lparr>lastPrice := price,
                       lastUpdateTimestamp := block_timestamp c\<rparr>),
                  tr_events := tr_events s @
                    [PriceFeedUpdated symbol' (feedAddress (priceFeeds s symbol')) price]\<rparr>))"

text \<open>
  \<open>convertAmount\<close> is a \<open>view\<close> function. The two symbols are compared through their
  hashes. In \<open>10 ** fromDecimals\<close> the base is a literal and the exponent a \<open>uint8\<close>, which
  the compiler (from 0.7.0 on) evaluates in \<open>uint256\<close>; each product and each power is
  checked, and reverts with \<open>Panic\<close> when it does not fit in 256 bits. The divisions
  truncate.
\<close>

definition convertAmount ::
  "env \<Rightarrow> TokenRegistry \<Rightarrow> string \<Rightarrow> string \<Rightarrow> uint256 \<Rightarrow> error + uint256" where
  "convertAmount e s fromSymbol toSymbol amount' =
     (if \<not> ti_tokenAddress (tokenInfos s fromSymbol) \<noteq> 0
      then Inl (Revert ''Source token does not exist'')
      else if \<not> ti_tokenAddress (tokenInfos s toSymbol) \<noteq> 0
      then Inl (Revert ''Destination token does not exist'')
      else if keccak256 e (bytes_of_string fromSymbol) = keccak256 e (bytes_of_string toSymbol)
      then Inr amount'
      else
        let fromFeed = priceFeeds s fromSymbol;
            toFeed = priceFeeds s toSymbol
        in if \<not> 0 < lastPrice fromFeed then Inl (Revert ''Source token price not available'')
           else if \<not> 0 < lastPrice toFeed
           then Inl (Revert ''Destination token price not available'')
           else
             let fromDecimals = decimals (tokenInfos s fromSymbol);
                 toDecimals = decimals (tokenInfos s toSymbol)
             in if \<not> unat amount' * unat (lastPrice fromFeed) < 2 ^ 256 then Inl Panic
                else if \<not> (10::nat) ^ unat fromDecimals < 2 ^ 256 then Inl Panic
                else
                  let valueInUSD = (amount' * lastPrice fromFeed) div (10 ^ unat fromDecimals)
                  in if \<not> (10::nat) ^ unat toDecimals < 2 ^ 256 then Inl Panic
                     else if \<not> unat valueInUSD * 10 ^ unat toDecimals < 2 ^ 256 then Inl Panic
                     else
                       let convertedAmount =
                             (valueInUSD * (10 ^ unat toDecimals)) div lastPrice toFeed
                       in Inr convertedAmount)"


section \<open>The token ledger\<close>

text \<open>
  Modelled from the spec: the ERC-20 token contracts that the payment contracts call
  (\<open>safeTransferFrom\<close>, \<open>safeTransfer\<close>, \<open>approve\<close>) are not part of the repository; the
  specification only says that a value transfer fails on insufficient balance or
  insufficient spending authorization. The ledger below is the standard one (that of
  OpenZeppelin's \<open>ERC20\<close>, which the repository's test token extends): a balance per
  token and holder, an allowance per token, owner and spender, and the log of the
  \<open>Transfer\<close> events. The first argument of every operation is the token's address and
  \<open>caller\<close> is the \<open>msg.sender\<close> the token sees. A token makes no call back into the
  payment contracts, so their \<open>nonReentrant\<close> guards never fire and are left out.
\<close>

datatype ERC20Event =
    Transfer address address address uint256
  | Approval address address address uint256

record Ledger =
  balanceOf :: "address \<Rightarrow> address \<Rightarrow> uint256"
  allowance :: "address \<Rightarrow> address \<Rightarrow> address \<Rightarrow> uint256"
  token_events :: "ERC20Event list"

definition erc20_move :: "Ledger \<Rightarrow> address \<Rightarrow> address \<Rightarrow> address \<Rightarrow> uint256 \<Rightarrow> error + Ledger" where
  "erc20_move l token from to value' =
     (if from = 0 then Inl ERC20InvalidSender
      else if to = 0 then Inl ERC20InvalidReceiver
      else if balanceOf l token from < value' then Inl ERC20InsufficientBalance
      else
        let b1 = (balanceOf l token)(from := balanceOf l token from - value');
            b2 = b1(to := b1 to + value')
        in Inr (l\<lparr>balanceOf := (balanceOf l)(token := b2),
                  token_events := token_events l @ [Transfer token from to value']\<rparr>))"

definition erc20_transfer :: "Ledger \<Rightarrow> address \<Rightarrow> address \<Rightarrow> address \<Rightarrow> uint256 \<Rightarrow> error + Ledger" where
  "erc20_transfer l token caller to value' = erc20_move l token caller to value'"

definition erc20_transferFrom ::
  "Ledger \<Rightarrow> address \<Rightarrow> address \<Rightarrow> address \<Rightarrow> address \<Rightarrow> uint256 \<Rightarrow> error + Ledger" where
  "erc20_transferFrom l token caller from to value' =
     (let currentAllowance = allowance l token from caller
      in if currentAllowance < - 1
         then if currentAllowance < value' then Inl ERC20InsufficientAllowance
              else erc20_move
                     (l\<lparr>allowance := (allowance l)(token := (allowance l token)(from :=
                          (allowance l token from)(caller := currentAllowance - value')))\<rparr>)
                     token from to value'
         else erc20_move l token from to value')"

definition erc20_approve :: "Ledger \<Rightarrow> address \<Rightarrow> address \<Rightarrow> address \<Rightarrow> uint256 \<Rightarrow> error + Ledger" where
  "erc20_approve l token caller spender value' =
     (if caller = 0 then Inl ERC20InvalidApprover
      else if spender = 0 then Inl ERC20InvalidSpender
      else Inr (l\<lparr>allowance := (allowance l)(token := (allowance l token)(caller :=
                    (allowance l token caller)(spender := value'))),
                  token_events := token_events l @ [Approval token caller spender value']\<rparr>))"

section \<open>PaymentProcessor\<close>

record PaymentRecord =
  paymentId :: bytes32
  payer :: address
  payee :: address
  tokenAddress :: address
  amount :: uint256
  feeAmount :: uint256
  timestamp :: uint256
  referenceHash :: bytes32

datatype PaymentEvent =
    PaymentProcessed bytes32 address address address uint256 uint256 bytes32
  | FeeUpdated uint256
  | FeeCollectorUpdated address

record PaymentProcessor =
  pp_roles :: roles
  feeCollector :: address
  platformFeePercentage :: uint256
  tokenRegistry :: address
  payments :: "bytes32 \<Rightarrow> PaymentRecord"
  processedPayments :: "bytes32 \<Rightarrow> bool"
  pp_events :: "PaymentEvent list"

definition zero_PaymentRecord :: PaymentRecord where
  "zero_PaymentRecord =
     \<lparr>paymentId = 0, payer = 0, payee = 0, tokenAddress = 0, amount = 0, feeAmount = 0,
      timestamp = 0, referenceHash = 0\<rparr>"

definition MAX_FEE :: uint256 where
  "MAX_FEE = 500"

definition PaymentProcessor_constructor ::
  "ctx \<Rightarrow> address \<Rightarrow> uint256 \<Rightarrow> address \<Rightarrow> error + PaymentProcessor" where
  "PaymentProcessor_constructor c feeCollector' feePercentage tokenRegistry' =
     (if feeCollector' = 0 then Inl (Revert ''Invalid fee collector'')
      else if \<not> feePercentage \<le> MAX_FEE then Inl (Revert ''Fee too high'')
      else if tokenRegistry' = 0 then Inl (Revert ''Invalid token registry'')
      else Inr \<lparr>pp_roles =
                  grantRole' (grantRole' (grantRole' no_roles DEFAULT_ADMIN_ROLE (msg_sender c))
                    ADMIN_ROLE (msg_sender c)) PAYMENT_MANAGER_ROLE (msg_sender c),
                feeCollector = feeCollector',
                platformFeePercentage = feePercentage,
                tokenRegistry = tokenRegistry',
                payments = (\<lambda>k. zero_PaymentRecord),
                processedPayments = (\<lambda>k. False),
                pp_events = []\<rparr>)"

text \<open>The prefix of an EIP-191 signed message of 32 bytes.\<close>

definition eip191_prefix :: string where
  "eip191_prefix = CHR 0x19 # ''Ethereum Signed Message:'' @ CHR 0x0A # ''32''"

text \<open>
  The signature block of \<open>processPayment\<close>: nothing is checked for a caller that holds
  the payment-manager role; for any other caller the signer of the prefixed message
  hash is recovered and must hold the role. The result is the error, if any.
\<close>

definition checkSignature ::
  "env \<Rightarrow> ctx \<Rightarrow> PaymentProcessor \<Rightarrow> bytes32 \<Rightarrow> address \<Rightarrow> address \<Rightarrow> uint256 \<Rightarrow> bytes32 \<Rightarrow> bytes
     \<Rightarrow> error option" where
  "checkSignature e c s paymentId' payee' tokenAddress' amount' referenceHash' signature =
     (if \<not> hasRole (pp_roles s) PAYMENT_MANAGER_ROLE (msg_sender c)
      then
        let messageHash = keccak256 e (encodePacked
              [B32 paymentId', Addr payee', Addr tokenAddress', U256 amount', B32 referenceHash']);
            ethSignedMessageHash = keccak256 e (encodePacked [Str eip191_prefix, B32 messageHash])
        in case ECDSA_recover e ethSignedMessageHash signature of
             None \<Rightarrow> Some ECDSAInvalidSignature
           | Some signer \<Rightarrow>
               if \<not> hasRole (pp_roles s) PAYMENT_MANAGER_ROLE signer
               then Some (Revert ''Invalid signature'')
               else None
      else None)"

text \<open>
  \<open>processPayment\<close> acts on the processor's storage and on the token ledger. The token
  sees the processor (\<open>this_address\<close>) as the caller of \<open>transferFrom\<close>, so the funds
  come from \<open>msg.sender\<close> against the allowance \<open>msg.sender\<close> gave the processor.
\<close>

definition processPayment ::
  "env \<Rightarrow> ctx \<Rightarrow> bytes32 \<Rightarrow> address \<Rightarrow> address \<Rightarrow> uint256 \<Rightarrow> bytes32 \<Rightarrow> bytes
     \<Rightarrow> PaymentProcessor \<times> Ledger \<Rightarrow> error + PaymentProcessor \<times> Ledger" where
  "processPayment e c paymentId' payee' tokenAddress' amount' referenceHash' signature w =
     (let s = fst w; l = snd w
      in if payee' = 0 then Inl (Revert ''Invalid payee'')
      else if tokenAddress' = 0 then Inl (Revert ''Invalid token'')
      else if \<not> 0 < amount' then Inl (Revert ''Amount must be greater than 0'')
      else if paymentId (payments s paymentId') \<noteq> 0 then Inl (Revert ''Payment ID already used'')
      else
        let paymentHash = keccak256 e (encodePacked
              [B32 paymentId', Addr payee', Addr tokenAddress', U256 amount'])
        in if processedPayments s paymentHash then Inl (Revert ''Payment already processed'')
        else
          case checkSignature e c s paymentId' payee' tokenAddress' amount' referenceHash' signature of
            Some err \<Rightarrow> Inl err
          | None \<Rightarrow>
              if \<not> unat amount' * unat (platformFeePercentage s) < 2 ^ 256 then Inl Panic
              else
                let feeAmount' = (amount' * platformFeePercentage s) div 10000
                in if \<not> feeAmount' \<le> amount' then Inl Panic
                else
                  let payeeAmount = amount' - feeAmount';
                      s1 = s\<lparr>processedPayments := (processedPayments s)(paymentHash := True)\<rparr>;
                      s2 = s1\<lparr>payments := (payments s1)(paymentId' :=
                             \<lparr>paymentId = paymentId', payer = msg_sender c, payee = payee',
                              tokenAddress = tokenAddress', amount = amount',
                              feeAmount = feeAmount', timestamp = block_timestamp c,
                              referenceHash = referenceHash'\<rparr>)\<rparr>
                  in case erc20_transferFrom l tokenAddress' (this_address c)
                            (msg_sender c) payee' payeeAmount of
                       Inl err \<Rightarrow> Inl err
                     | Inr l1 \<Rightarrow>
                         (case (if 0 < feeAmount'
                                then erc20_transferFrom l1 tokenAddress' (this_address c)
                                       (msg_sender c) (feeCollector s2) feeAmount'
                                else Inr l1) of
                            Inl err \<Rightarrow> Inl err
                          | Inr l2 \<Rightarrow>
                              Inr (s2\<lparr>pp_events := pp_events s2 @
                                     [PaymentProcessed paymentId' (msg_sender c) payee'
                                        tokenAddress' amount' feeAmount' referenceHash']\<rparr>,
                                   l2)))"

text \<open>
  The first loop of \<open>processBatchPayment\<close>: item \<open>i\<close> is validated, marked, recorded and
  added to the two running totals. The four arrays have been checked to have one length,
  so the loop is a recursion over the list of the items
  \<open>(_paymentIds[i], _payees[i], _amounts[i], _referenceHashes[i])\<close>.
\<close>

type_synonym batch_item = "bytes32 \<times> address \<times> uint256 \<times> bytes32"

fun validateLoop ::
  "env \<Rightarrow> ctx \<Rightarrow> address \<Rightarrow> batch_item list \<Rightarrow> PaymentProcessor \<times> uint256 \<times> uint256
     \<Rightarrow> error + PaymentProcessor \<times> uint256 \<times> uint256" where
  "validateLoop e c tokenAddress' [] acc = Inr acc"
| "validateLoop e c tokenAddress' ((paymentId', payee', amount', referenceHash') # rest)
       (s, totalAmount, totalFees) =
     (if payee' = 0 then Inl (Revert ''Invalid payee'')
      else if \<not> 0 < amount' then Inl (Revert ''Amount must be greater than 0'')
      else if paymentId (payments s paymentId') \<noteq> 0 then Inl (Revert ''Payment ID already used'')
      else
        let paymentHash = keccak256 e (encodePacked
              [B32 paymentId', Addr payee', Addr tokenAddress', U256 amount'])
        in if processedPayments s paymentHash then Inl (Revert ''Payment already processed'')
        else
          let s1 = s\<lparr>processedPayments := (processedPayments s)(paymentHash := True)\<rparr>
          in if \<not> unat amount' * unat (platformFeePercentage s1) < 2 ^ 256 then Inl Panic
          else
            let feeAmount' = (amount' * platformFeePercentage s1) div 10000;
                s2 = s1\<lparr>payments := (payments s1)(paymentId' :=
                       \<lparr>paymentId = paymentId', payer = msg_sender c, payee = payee',
                        tokenAddress = tokenAddress', amount = amount',
                        feeAmount = feeAmount', timestamp = block_timestamp c,
                        referenceHash = referenceHash'\<rparr>)\<rparr>
            in if \<not> unat totalAmount + unat amount' < 2 ^ 256 then Inl Panic
               else if \<not> unat totalFees + unat feeAmount' < 2 ^ 256 then Inl Panic
               else validateLoop e c tokenAddress' rest
                      (s2, totalAmount + amount', totalFees + feeAmount'))"

text \<open>
  The second loop: each payee is paid its net amount out of the processor's own balance
  and the event of the item is emitted.
\<close>

fun distributeLoop ::
  "ctx \<Rightarrow> address \<Rightarrow> batch_item list \<Rightarrow> PaymentProcessor \<times> Ledger
     \<Rightarrow> error + PaymentProcessor \<times> Ledger" where
  "distributeLoop c tokenAddress' [] w = Inr w"
| "distributeLoop c tokenAddress' ((paymentId', payee', amount', referenceHash') # rest) (s, l) =
     (if \<not> unat amount' * unat (platformFeePercentage s) < 2 ^ 256 then Inl Panic
      else
        let feeAmount' = (amount' * platformFeePercentage s) div 10000
        in if \<not> feeAmount' \<le> amount' then Inl Panic
        else
          let payeeAmount = amount' - feeAmount'
          in case erc20_transfer l tokenAddress' (this_address c) payee' payeeAmount of
               Inl err \<Rightarrow> Inl err
             | Inr l1 \<Rightarrow>
                 distributeLoop c tokenAddress' rest
                   (s\<lparr>pp_events := pp_events s @
                        [PaymentProcessed paymentId' (msg_sender c) payee' tokenAddress'
                           amount' feeAmount' referenceHash']\<rparr>,
                    l1))"

definition processBatchPayment ::
  "env \<Rightarrow> ctx \<Rightarrow> bytes32 list \<Rightarrow> address list \<Rightarrow> address \<Rightarrow> uint256 list \<Rightarrow> bytes32 list
     \<Rightarrow> PaymentProcessor \<times> Ledger \<Rightarrow> error + PaymentProcessor \<times> Ledger" where
  "processBatchPayment e c paymentIds payees tokenAddress' amounts referenceHashes w =
     (let s = fst w; l = snd w
      in if \<not> hasRole (pp_roles s) PAYMENT_MANAGER_ROLE (msg_sender c)
      then Inl (AccessControlUnauthorizedAccount (msg_sender c) PAYMENT_MANAGER_ROLE)
      else if length paymentIds \<noteq> length payees then Inl (Revert ''Array length mismatch'')
      else if length payees \<noteq> length amounts then Inl (Revert ''Array length mismatch'')
      else if length amounts \<noteq> length referenceHashes then Inl (Revert ''Array length mismatch'')
      else if tokenAddress' = 0 then Inl (Revert ''Invalid token'')
      else
        let items = zip paymentIds (zip payees (zip amounts referenceHashes))
        in case validateLoop e c tokenAddress' items (s, 0, 0) of
             Inl err \<Rightarrow> Inl err
           | Inr (s1, totalAmount, totalFees) \<Rightarrow>
               (case erc20_transferFrom l tokenAddress' (this_address c)
                       (msg_sender c) (this_address c) totalAmount of
                  Inl err \<Rightarrow> Inl err
                | Inr l1 \<Rightarrow>
                    (case distributeLoop c tokenAddress' items (s1, l1) of
                       Inl err \<Rightarrow> Inl err
                     | Inr (s2, l2) \<Rightarrow>
                         if 0 < totalFees
                         then (case erc20_transfer l2 tokenAddress' (this_address c)
                                      (feeCollector s2) totalFees of
                                 Inl err \<Rightarrow> Inl err
                               | Inr l3 \<Rightarrow> Inr (s2, l3))
                         else Inr (s2, l2))))"

definition verifyPayment :: "PaymentProcessor \<Rightarrow> bytes32 \<Rightarrow> bool \<times> PaymentRecord" where
  "verifyPayment s paymentId' =
     (let record = payments s paymentId';
          exists = (paymentId record \<noteq> 0)
      in (exists, record))"

definition updatePlatformFee :: "ctx \<Rightarrow> uint256 \<Rightarrow> PaymentProcessor \<Rightarrow> error + PaymentProcessor" where
  "updatePlatformFee c newFeePercentage s =
     (if \<not> hasRole (pp_roles s) ADMIN_ROLE (msg_sender c)
      then Inl (AccessControlUnauthorizedAccount (msg_sender c) ADMIN_ROLE)
      else if \<not> newFeePercentage \<le> MAX_FEE then Inl (Revert ''Fee too high'')
      else Inr (s\<lparr>platformFeePercentage := newFeePercentage,
                  pp_events := pp_events s @ [FeeUpdated newFeePercentage]\<rparr>))"

definition updateFeeCollector :: "ctx \<Rightarrow> address \<Rightarrow> PaymentProcessor \<Rightarrow> error + PaymentProcessor" where
  "updateFeeCollector c newFeeCollector s =
     (if \<not> hasRole (pp_roles s) ADMIN_ROLE (msg_sender c)
      then Inl (AccessControlUnauthorizedAccount (msg_sender c) ADMIN_ROLE)
      else if newFeeCollector = 0 then Inl (Revert ''Invalid fee collector'')
      else Inr (s\<lparr>feeCollector := newFeeCollector,
                  pp_events := pp_events s @ [FeeCollectorUpdated newFeeCollector]\<rparr>))"


section \<open>Calls to the PaymentProcessor\<close>

definition setTokenRegistry :: "ctx \<Rightarrow> address \<Rightarrow> PaymentProcessor \<Rightarrow> error + PaymentProcessor" where
  "setTokenRegistry c tokenRegistry' s =
     (if \<not> hasRole (pp_roles s) ADMIN_ROLE (msg_sender c)
      then Inl (AccessControlUnauthorizedAccount (msg_sender c) ADMIN_ROLE)
      else if tokenRegistry' = 0 then Inl (Revert ''Invalid token registry'')
      else Inr (s\<lparr>tokenRegistry := tokenRegistry'\<rparr>))"

text \<open>
  Every state-changing entry point of the processor as one call on its storage and the
  ledger, and a sequence of such transactions, each with its own caller and block time;
  a transaction that reverts leaves the state as it was.
\<close>

datatype ProcessorCall =
    ProcessPayment bytes32 address address uint256 bytes32 bytes
  | ProcessBatchPayment "bytes32 list" "address list" address "uint256 list" "bytes32 list"
  | UpdatePlatformFee uint256
  | UpdateFeeCollector address
  | SetTokenRegistry address

fun processorCall ::
  "env \<Rightarrow> ctx \<Rightarrow> ProcessorCall \<Rightarrow> PaymentProcessor \<times> Ledger \<Rightarrow> error + PaymentProcessor \<times> Ledger" where
  "processorCall e c (ProcessPayment i p t a r sig) w = processPayment e c i p t a r sig w"
| "processorCall e c (ProcessBatchPayment ids ps t as rs) w = processBatchPayment e c ids ps t as rs w"
| "processorCall e c (UpdatePlatformFee f) w =
     (case updatePlatformFee c f (fst w) of Inl err \<Rightarrow> Inl err | Inr s' \<Rightarrow> Inr (s', snd w))"
| "processorCall e c (UpdateFeeCollector a) w =
     (case updateFeeCollector c a (fst w) of Inl err \<Rightarrow> Inl err | Inr s' \<Rightarrow> Inr (s', snd w))"
| "processorCall e c (SetTokenRegistry a) w =
     (case setTokenRegistry c a (fst w) of Inl err \<Rightarrow> Inl err | Inr s' \<Rightarrow> Inr (s', snd w))"

fun processorCalls ::
  "env \<Rightarrow> (ctx \<times> ProcessorCall) list \<Rightarrow> PaymentProcessor \<times> Ledger \<Rightarrow> PaymentProcessor \<times> Ledger" where
  "processorCalls e [] w = w"
| "processorCalls e ((c, call) # rest) w =
     processorCalls e rest (fst (transact (processorCall e c call) w))"

text \<open>
  The four \<open>require\<close>s that the first loop of \<open>processBatchPayment\<close> makes on an item,
  read in the state \<open>s\<close>: the item fails validation when one of them does not hold.
\<close>

definition failsValidation :: "env \<Rightarrow> address \<Rightarrow> PaymentProcessor \<Rightarrow> batch_item \<Rightarrow> bool" where
  "failsValidation e tokenAddress' s item =
     (case item of (paymentId', payee', amount', referenceHash') \<Rightarrow>
        payee' = 0
        \<or> \<not> 0 < amount'
        \<or> paymentId (payments s paymentId') \<noteq> 0
        \<or> processedPayments s (keccak256 e (encodePacked
             [B32 paymentId', Addr payee', Addr tokenAddress', U256 amount'])))"


section \<open>RecurringPayment\<close>

text \<open>
  The struct \<open>RecurringPayment\<close> of the interface; the contract of the same name is
  \<open>RecurringPaymentContract\<close> below.
\<close>

record RecurringPayment =
  rp_id :: bytes32
  rp_payer :: address
  rp_payee :: address
  rp_tokenAddress :: address
  rp_amount :: uint256
  frequency :: uint256
  nextPaymentDue :: uint256
  isActive :: bool
  referenceId :: bytes32

datatype RecurringEvent =
    RecurringPaymentCreated bytes32 address address address uint256 uint256 uint256
  | RecurringPaymentExecuted bytes32 address address uint256 uint256
  | RecurringPaymentCancelled bytes32
  | RecurringPaymentUpdated bytes32

record RecurringPaymentContract =
  rp_roles :: roles
  paymentProcessor :: address
  recurringPayments :: "bytes32 \<Rightarrow> RecurringPayment"
  userRecurringPayments :: "address \<Rightarrow> bytes32 list"
  userReceivedPayments :: "address \<Rightarrow> bytes32 list"
  rp_events :: "RecurringEvent list"

definition zero_RecurringPayment :: RecurringPayment where
  "zero_RecurringPayment =
     \<lparr>rp_id = 0, rp_payer = 0, rp_payee = 0, rp_tokenAddress = 0, rp_amount = 0,
      frequency = 0, nextPaymentDue = 0, isActive = False, referenceId = 0\<rparr>"

definition RecurringPayment_constructor :: "ctx \<Rightarrow> address \<Rightarrow> error + RecurringPaymentContract" where
  "RecurringPayment_constructor c paymentProcessor' =
     (if paymentProcessor' = 0 then Inl (Revert ''Invalid payment processor'')
      else Inr \<lparr>rp_roles =
                  grantRole' (grantRole' (grantRole' no_roles DEFAULT_ADMIN_ROLE (msg_sender c))
                    ADMIN_ROLE (msg_sender c)) PAYMENT_MANAGER_ROLE (msg_sender c),
                paymentProcessor = paymentProcessor',
                recurringPayments = (\<lambda>k. zero_RecurringPayment),
                userRecurringPayments = (\<lambda>a. []),
                userReceivedPayments = (\<lambda>a. []),
                rp_events = []\<rparr>)"

definition createRecurringPayment ::
  "ctx \<Rightarrow> bytes32 \<Rightarrow> address \<Rightarrow> address \<Rightarrow> uint256 \<Rightarrow> uint256 \<Rightarrow> uint256 \<Rightarrow> bytes32
     \<Rightarrow> RecurringPaymentContract \<Rightarrow> error + RecurringPaymentContract" where
  "createRecurringPayment c id' payee' tokenAddress' amount' frequency' firstPaymentDue
       referenceId' s =
     (if payee' = 0 then Inl (Revert ''Invalid payee'')
      else if tokenAddress' = 0 then Inl (Revert ''Invalid token'')
      else if \<not> 0 < amount' then Inl (Revert ''Amount must be greater than 0'')
      else if \<not> 0 < frequency' then Inl (Revert ''Frequency must be greater than 0'')
      else if \<not> block_timestamp c < firstPaymentDue
      then Inl (Revert ''First payment must be in future'')
      else if rp_id (recurringPayments s id') \<noteq> 0 then Inl (Revert ''ID already exists'')
      else
        let newPayment = (recurringPayments s id')
              \<lparr>rp_id := id', rp_payer := msg_sender c, rp_payee := payee',
               rp_tokenAddress := tokenAddress', rp_amount := amount',
               frequency := frequency', nextPaymentDue := firstPaymentDue,
               isActive := True, referenceId := referenceId'\<rparr>;
            s1 = s\<lparr>recurringPayments := (recurringPayments s)(id' := newPayment)\<rparr>;
            s2 = s1\<lparr>userRecurringPayments := (userRecurringPayments s1)(msg_sender c :=
                       userRecurringPayments s1 (msg_sender c) @ [id'])\<rparr>;
            s3 = s2\<lparr>userReceivedPayments := (userReceivedPayments s2)(payee' :=
                       userReceivedPayments s2 payee' @ [id'])\<rparr>
        in Inr (s3\<lparr>rp_events := rp_events s3 @
                  [RecurringPaymentCreated id' (msg_sender c) payee' tokenAddress' amount'
                     frequency' firstPaymentDue]\<rparr>))"

text \<open>
  \<open>executeRecurringPayment\<close> acts on the scheduler's storage, on the storage of the
  payment processor it refers to, and on the token ledger. The scheduler approves the
  processor and then calls its \<open>processPayment\<close>; in that inner call the scheduler is
  \<open>msg.sender\<close> and the processor is the executing contract. A failure of the inner call
  fails the whole execution.
\<close>

definition executeRecurringPayment ::
  "env \<Rightarrow> ctx \<Rightarrow> bytes32 \<Rightarrow> RecurringPaymentContract \<times> PaymentProcessor \<times> Ledger
     \<Rightarrow> error + RecurringPaymentContract \<times> PaymentProcessor \<times> Ledger" where
  "executeRecurringPayment e c id' w =
     (let s = fst w; pp = fst (snd w); l = snd (snd w);
          payment = recurringPayments s id'
      in if \<not> rp_id payment \<noteq> 0 then Inl (Revert ''Payment does not exist'')
      else if \<not> isActive payment then Inl (Revert ''Payment is not active'')
      else if \<not> nextPaymentDue payment \<le> block_timestamp c
      then Inl (Revert ''Payment not due yet'')
      else
        let previousDueDate = nextPaymentDue payment
        in if \<not> unat previousDueDate + unat (frequency payment) < 2 ^ 256 then Inl Panic
        else
          let payment1 = payment\<lparr>nextPaymentDue := previousDueDate + frequency payment\<rparr>;
              s1 = s\<lparr>recurringPayments := (recurringPayments s)(id' := payment1)\<rparr>;
              paymentId' = keccak256 e (encodePacked
                [B32 (rp_id payment1), Addr (rp_payer payment1), Addr (rp_payee payment1),
                 U256 previousDueDate, U256 (block_timestamp c)]);
              referenceHash' = keccak256 e (encodePacked
                [Str ''RECURRING'', B32 (rp_id payment1), U256 previousDueDate])
          in case erc20_approve l (rp_tokenAddress payment1) (this_address c)
                    (paymentProcessor s1) (rp_amount payment1) of
               Inl err \<Rightarrow> Inl err
             | Inr l1 \<Rightarrow>
                 (case processPayment e
                         \<lparr>msg_sender = this_address c, block_timestamp = block_timestamp c,
                          this_address = paymentProcessor s1\<rparr>
                         paymentId' (rp_payee payment1) (rp_tokenAddress payment1)
                         (rp_amount payment1) referenceHash' [] (pp, l1) of
                    Inl err \<Rightarrow> Inl err
                  | Inr (pp1, l2) \<Rightarrow>
                      Inr (s1\<lparr>rp_events := rp_events s1 @
                             [RecurringPaymentExecuted id' (rp_payer payment1)
                                (rp_payee payment1) (rp_amount payment1)
                                (nextPaymentDue payment1)]\<rparr>,
                           pp1, l2)))"

definition isPaymentDue :: "ctx \<Rightarrow> RecurringPaymentContract \<Rightarrow> bytes32 \<Rightarrow> bool" where
  "isPaymentDue c s id' =
     (let payment = recurringPayments s id'
      in if rp_id payment = 0 \<or> \<not> isActive payment then False
         else nextPaymentDue payment \<le> block_timestamp c)"

definition cancelRecurringPayment ::
  "ctx \<Rightarrow> bytes32 \<Rightarrow> RecurringPaymentContract \<Rightarrow> error + RecurringPaymentContract" where
  "cancelRecurringPayment c id' s =
     (let payment = recurringPayments s id'
      in if \<not> rp_id payment \<noteq> 0 then Inl (Revert ''Payment does not exist'')
      else if \<not> (rp_payer payment = msg_sender c
                 \<or> hasRole (rp_roles s) PAYMENT_MANAGER_ROLE (msg_sender c))
      then Inl (Revert ''Not authorized'')
      else Inr (s\<lparr>recurringPayments := (recurringPayments s)(id' :=
                    payment\<lparr>isActive := False\<rparr>),
                  rp_events := rp_events s @ [RecurringPaymentCancelled id']\<rparr>))"

definition updateRecurringPayment ::
  "ctx \<Rightarrow> bytes32 \<Rightarrow> uint256 \<Rightarrow> uint256 \<Rightarrow> RecurringPaymentContract
     \<Rightarrow> error + RecurringPaymentContract" where
  "updateRecurringPayment c id' amount' frequency' s =
     (let payment = recurringPayments s id'
      in if \<not> rp_id payment \<noteq> 0 then Inl (Revert ''Payment does not exist'')
      else if \<not> isActive payment then Inl (Revert ''Payment is not active'')
      else if \<not> (rp_payer payment = msg_sender c
                 \<or> hasRole (rp_roles s) PAYMENT_MANAGER_ROLE (msg_sender c))
      then Inl (Revert ''Not authorized'')
      else if \<not> 0 < amount' then Inl (Revert ''Amount must be greater than 0'')
      else if \<not> 0 < frequency' then Inl (Revert ''Frequency must be greater than 0'')
      else Inr (s\<lparr>recurringPayments := (recurringPayments s)(id' :=
                    payment\<lparr>rp_amount := amount', frequency := frequency'\<rparr>),
                  rp_events := rp_events s @ [RecurringPaymentUpdated id']\<rparr>))"

definition getRecurringPaymentDetails ::
  "RecurringPaymentContract \<Rightarrow> bytes32 \<Rightarrow> error + RecurringPayment" where
  "getRecurringPaymentDetails s id' =
     (if \<not> rp_id (recurringPayments s id') \<noteq> 0 then Inl (Revert ''Payment does not exist'')
      else Inr (recurringPayments s id'))"

definition setPaymentProcessor ::
  "ctx \<Rightarrow> address \<Rightarrow> RecurringPaymentContract \<Rightarrow> error + RecurringPaymentContract" where
  "setPaymentProcessor c paymentProcessor' s =
     (if \<not> hasRole (rp_roles s) ADMIN_ROLE (msg_sender c)
      then Inl (AccessControlUnauthorizedAccount (msg_sender c) ADMIN_ROLE)
      else if paymentProcessor' = 0 then Inl (Revert ''Invalid payment processor'')
      else Inr (s\<lparr>paymentProcessor := paymentProcessor'\<rparr>))"

text \<open>
  Every state-changing entry point of the scheduler, as one call on the three states, so
  that a property can be stated for whatever is called next.
\<close>

datatype RecurringCall =
    Create bytes32 address address uint256 uint256 uint256 bytes32
  | Execute bytes32
  | Cancel bytes32
  | Update bytes32 uint256 uint256
  | SetProcessor address

fun recurringCall ::
  "env \<Rightarrow> ctx \<Rightarrow> RecurringCall \<Rightarrow> RecurringPaymentContract \<times> PaymentProcessor \<times> Ledger
     \<Rightarrow> error + RecurringPaymentContract \<times> PaymentProcessor \<times> Ledger" where
  "recurringCall e c (Create i p t a f d r) w =
     (case createRecurringPayment c i p t a f d r (fst w) of
        Inl err \<Rightarrow> Inl err | Inr s' \<Rightarrow> Inr (s', snd w))"
| "recurringCall e c (Execute i) w = executeRecurringPayment e c i w"
| "recurringCall e c (Cancel i) w =
     (case cancelRecurringPayment c i (fst w) of
        Inl err \<Rightarrow> Inl err | Inr s' \<Rightarrow> Inr (s', snd w))"
| "recurringCall e c (Update i a f) w =
     (case updateRecurringPayment c i a f (fst w) of
        Inl err \<Rightarrow> Inl err | Inr s' \<Rightarrow> Inr (s', snd w))"
| "recurringCall e c (SetProcessor p) w =
     (case setPaymentProcessor c p (fst w) of
        Inl err \<Rightarrow> Inl err | Inr s' \<Rightarrow> Inr (s', snd w))"

text \<open>
  A sequence of transactions, each with its own caller and block time; a transaction that
  reverts leaves the state as it was and the sequence goes on.
\<close>

fun recurringCalls ::
  "env \<Rightarrow> (ctx \<times> RecurringCall) list \<Rightarrow> RecurringPaymentContract \<times> PaymentProcessor \<times> Ledger
     \<Rightarrow> RecurringPaymentContract \<times> PaymentProcessor \<times> Ledger" where
  "recurringCalls e [] w = w"
| "recurringCalls e ((c, call) # rest) w =
     recurringCalls e rest (fst (transact (recurringCall e c call) w))"


text \<open>
  A subscription is cancelled when it exists and is not active.
\<close>

definition cancelled :: "RecurringPaymentContract \<Rightarrow> bytes32 \<Rightarrow> bool" where
  "cancelled s i \<longleftrightarrow> rp_id (recurringPayments s i) \<noteq> 0 \<and> \<not> isActive (recurringPayments s i)"


section \<open>Example deployments\<close>

text \<open>
  Concrete callers and states on which the properties below are exercised. Address 1
  deploys every contract, so it holds every role; address 9 holds none.
\<close>

definition deployer :: ctx where
  "deployer = \<lparr>msg_sender = 1, block_timestamp = 1000, this_address = 50\<rparr>"

definition outsider :: ctx where
  "outsider = \<lparr>msg_sender = 9, block_timestamp = 1000, this_address = 50\<rparr>"

definition registry0 :: DocumentRegistry where
  "registry0 = DocumentRegistry_constructor deployer"

definition registry1 :: DocumentRegistry where
  "registry1 = registry0\<lparr>documents := (documents registry0)(7 :=
        \<lparr>docHash = 7, registeredBy = 1, doc_timestamp = 1000, docType = Invoice,
         docReference = ''INV-1'', isRevoked = False\<rparr>),
      userDocuments := (userDocuments registry0)(1 := [7]),
      dr_events := [DocumentRegistered 7 1 Invoice ''INV-1'']\<rparr>"

definition registry2 :: DocumentRegistry where
  "registry2 = registry1\<lparr>documents := (documents registry1)(7 :=
        (documents registry1 7)\<lparr>isRevoked := True\<rparr>),
      dr_events := dr_events registry1 @ [DocumentRevoked 7 1 ''void'']\<rparr>"

text \<open>
  A stand-in for the hash in the examples: any function on byte strings will do there,
  and this one tells apart every pair of inputs the examples use.
\<close>

definition example_hash :: "bytes \<Rightarrow> bytes32" where
  "example_hash bs = foldl (\<lambda>h b. h * 257 + ucast b + 1) 0 bs"

definition example_env :: env where
  "example_env = \<lparr>keccak256 = example_hash, ECDSA_recover = (\<lambda>h sig. None)\<rparr>"

text \<open>
  The token registry of the specification's scenario: USDC with 6 decimals at price 1.00
  and ETH with 18 decimals at price 3000.00 (prices scaled by \<open>10^8\<close>), and DAI that has
  no price yet.
\<close>

definition tokens0 :: TokenRegistry where
  "tokens0 = TokenRegistry_constructor deployer"

definition tokens1 :: TokenRegistry where
  "tokens1 = tokens0\<lparr>
      tokenInfos := (tokenInfos tokens0)
        (''USDC'' := \<lparr>symbol = ''USDC'', ti_tokenAddress = 20, decimals = 6, isEnabled = True,
                      minimumTransferAmount = 1000000\<rparr>,
         ''ETH'' := \<lparr>symbol = ''ETH'', ti_tokenAddress = 21, decimals = 18, isEnabled = True,
                     minimumTransferAmount = 0\<rparr>,
         ''DAI'' := \<lparr>symbol = ''DAI'', ti_tokenAddress = 22, decimals = 18, isEnabled = True,
                     minimumTransferAmount = 0\<rparr>),
      priceFeeds := (priceFeeds tokens0)
        (''USDC'' := \<lparr>feedAddress = 0, lastPrice = 100000000, lastUpdateTimestamp = 1000\<rparr>,
         ''ETH'' := \<lparr>feedAddress = 0, lastPrice = 300000000000, lastUpdateTimestamp = 1000\<rparr>),
      supportedTokens := [''USDC'', ''ETH'', ''DAI''],
      tr_events := [TokenAdded ''USDC'' 20 6 1000000, TokenAdded ''ETH'' 21 18 0,
                    TokenAdded ''DAI'' 22 18 0, PriceFeedUpdated ''USDC'' 0 100000000,
                    PriceFeedUpdated ''ETH'' 0 300000000000]\<rparr>"


text \<open>
  The deployment of the repository's script: the processor (at address 50) takes a fee
  of 250 basis points for the collector (address 5); the scheduler (at address 60)
  refers to the processor and holds its payment-manager role, as does address 2.
  Token 20 is the asset; the deployer (1), the payer (3) and the scheduler hold some
  of it, and the first two have approved the processor.
\<close>

definition processor1 :: PaymentProcessor where
  "processor1 =
     \<lparr>pp_roles =
        grantRole' (grantRole' (grantRole' (grantRole' (grantRole' no_roles
          DEFAULT_ADMIN_ROLE 1) ADMIN_ROLE 1) PAYMENT_MANAGER_ROLE 1)
          PAYMENT_MANAGER_ROLE 60) PAYMENT_MANAGER_ROLE 2,
      feeCollector = 5,
      platformFeePercentage = 250,
      tokenRegistry = 30,
      payments = (\<lambda>k. zero_PaymentRecord),
      processedPayments = (\<lambda>k. False),
      pp_events = []\<rparr>"

definition ledger1 :: Ledger where
  "ledger1 =
     \<lparr>balanceOf = (\<lambda>t h. 0)(20 := (\<lambda>h. 0)(1 := 1000000000, 3 := 1000000000, 60 := 500000000)),
      allowance = (\<lambda>t owner spender. 0)
        (20 := (\<lambda>owner spender. 0)(1 := (\<lambda>spender. 0)(50 := 1000000000),
                                    3 := (\<lambda>spender. 0)(50 := 1000000000))),
      token_events = []\<rparr>"

definition payer3 :: ctx where
  "payer3 = \<lparr>msg_sender = 3, block_timestamp = 1000, this_address = 50\<rparr>"

text \<open>
  A stand-in for signature recovery in the examples: the only valid signature of a hash
  is the 32 bytes of the hash itself, and its signer is address 2.
\<close>

definition signing_env :: env where
  "signing_env =
     \<lparr>keccak256 = example_hash,
      ECDSA_recover = (\<lambda>h sig. if sig = be_bytes 32 h then Some 2 else None)\<rparr>"

text \<open>
  The scheduler with one subscription, created by the payer (3) at time 1000: 100 units
  of token 20 to the payee (4) every 2592000 seconds, first due at time 2000.
\<close>

definition subscriber :: ctx where
  "subscriber = \<lparr>msg_sender = 3, block_timestamp = 1000, this_address = 60\<rparr>"

definition keeper :: ctx where
  "keeper = \<lparr>msg_sender = 8, block_timestamp = 5000, this_address = 60\<rparr>"

definition scheduler0 :: RecurringPaymentContract where
  "scheduler0 =
     \<lparr>rp_roles =
        grantRole' (grantRole' (grantRole' no_roles DEFAULT_ADMIN_ROLE 1) ADMIN_ROLE 1)
          PAYMENT_MANAGER_ROLE 1,
      paymentProcessor = 50,
      recurringPayments = (\<lambda>k. zero_RecurringPayment),
      userRecurringPayments = (\<lambda>a. []),
      userReceivedPayments = (\<lambda>a. []),
      rp_events = []\<rparr>"

definition subscription11 :: RecurringPayment where
  "subscription11 =
     \<lparr>rp_id = 11, rp_payer = 3, rp_payee = 4, rp_tokenAddress = 20, rp_amount = 100,
      frequency = 2592000, nextPaymentDue = 2000, isActive = True, referenceId = 77\<rparr>"

definition scheduler1 :: RecurringPaymentContract where
  "scheduler1 = scheduler0\<lparr>
      recurringPayments := (recurringPayments scheduler0)(11 := subscription11),
      userRecurringPayments := (userRecurringPayments scheduler0)(3 := [11]),
      userReceivedPayments := (userReceivedPayments scheduler0)(4 := [11]),
      rp_events := [RecurringPaymentCreated 11 3 4 20 100 2592000 2000]\<rparr>"

definition scheduler2 :: RecurringPaymentContract where
  "scheduler2 = scheduler1\<lparr>
      recurringPayments := (recurringPayments scheduler1)(11 :=
        subscription11\<lparr>isActive := False\<rparr>),
      rp_events := rp_events scheduler1 @ [RecurringPaymentCancelled 11]\<rparr>"


text \<open>
  The states reached by three payments of the deployer out of \<open>(processor1, ledger1)\<close>:
  payment 28721 of 100000000 units, and two payments under the identifier zero, of
  10000 and then of 20000 units.
\<close>

definition paid_p1 :: "PaymentProcessor \<times> Ledger" where
  "paid_p1 = projr (processPayment example_env deployer 28721 4 20 100000000 99 []
                      (processor1, ledger1))"

definition paid_zero1 :: "PaymentProcessor \<times> Ledger" where
  "paid_zero1 = projr (processPayment example_env deployer 0 4 20 10000 99 []
                         (processor1, ledger1))"

definition paid_zero2 :: "PaymentProcessor \<times> Ledger" where
  "paid_zero2 = projr (processPayment example_env deployer 0 4 20 20000 99 [] paid_zero1)"

text \<open>
  The state reached out of \<open>paid_zero1\<close> by a batch of one item, again under the
  identifier zero, of 20000 units.
\<close>

definition batch_zero :: "PaymentProcessor \<times> Ledger" where
  "batch_zero = projr (processBatchPayment example_env deployer [0] [4] 20 [20000] [98]
                         paid_zero1)"


section \<open>The example states are reachable\<close>

lemma registry1_reached:
  "registerDocument deployer 7 Invoice ''INV-1'' registry0 = Inr registry1"
  by (simp add: registerDocument_def storeDocument_def registry1_def registry0_def
      DocumentRegistry_constructor_def deployer_def hasRole_def grantRole'_def zero_Document_def)

lemma tokens1_reached:
  "\<exists>a b c d. addToken deployer ''USDC'' 20 6 1000000 tokens0 = Inr a
     \<and> addToken deployer ''ETH'' 21 18 0 a = Inr b
     \<and> addToken deployer ''DAI'' 22 18 0 b = Inr c
     \<and> updatePrice deployer ''USDC'' 100000000 c = Inr d
     \<and> updatePrice deployer ''ETH'' 300000000000 d = Inr tokens1"
  by (simp add: addToken_def updatePrice_def tokens1_def tokens0_def
      TokenRegistry_constructor_def deployer_def hasRole_def grantRole'_def
      zero_TokenInfo_def zero_PriceFeed_def bytes_of_string_def)

lemma processor1_reached:
  "\<exists>p0. PaymentProcessor_constructor deployer 5 250 30 = Inr p0
     \<and> processor1 = p0\<lparr>pp_roles :=
           grantRole' (grantRole' (pp_roles p0) PAYMENT_MANAGER_ROLE 60) PAYMENT_MANAGER_ROLE 2\<rparr>"
  by (simp add: PaymentProcessor_constructor_def processor1_def deployer_def MAX_FEE_def)

lemma scheduler0_reached:
  "RecurringPayment_constructor deployer 50 = Inr scheduler0"
  by (simp add: RecurringPayment_constructor_def scheduler0_def deployer_def)

section \<open>Properties of the DocumentRegistry\<close>

text \<open>
  Claim C9. \<open>revokeDocument\<close> succeeds only on a document that is registered and not yet
  revoked, so it fails on an unregistered and on an already revoked one; after a
  successful revocation every further \<open>revokeDocument\<close> of the same hash fails, by
  whatever caller and with whatever reason, and by the caller of the first one it fails
  with the reason "Document already revoked", a state conflict. \<open>verifyDocument\<close> reads the
  state only and returns \<open>(exists, isValid, record)\<close> with \<open>isValid = exists \<and> \<not> revoked\<close>;
  on the revoked document it returns \<open>exists = True\<close> and \<open>isValid = False\<close>.
\<close>

theorem C9_revokeDocument_verifyDocument:
  assumes "revokeDocument c h reason s = Inr s'"
  shows "docHash (documents s h) \<noteq> 0 \<and> \<not> isRevoked (documents s h)
       \<and> (\<exists>e. revokeDocument c2 h reason2 s' = Inl e)
       \<and> revokeDocument c h reason2 s' = Inl (Revert ''Document already revoked'')
       \<and> kind_of (Revert ''Document already revoked'') = StateConflictError
       \<and> fst (transact (revokeDocument c2 h reason2) s') = s'
       \<and> verifyDocument s' h = (True, False, (documents s h)\<lparr>isRevoked := True\<rparr>)
       \<and> verifyDocument st k =
            (docHash (documents st k) \<noteq> 0,
             docHash (documents st k) \<noteq> 0 \<and> \<not> isRevoked (documents st k),
             documents st k)"
proof -
  from assms have role: "hasRole (dr_roles s) DOCUMENT_MANAGER_ROLE (msg_sender c)"
    and reg: "docHash (documents s h) \<noteq> 0" and nrev: "\<not> isRevoked (documents s h)"
    by (auto simp: revokeDocument_def split: if_splits)
  from assms role reg nrev have s': "s' = s\<lparr>documents := (documents s)(h :=
        (documents s h)\<lparr>isRevoked := True\<rparr>),
      dr_events := dr_events s @ [DocumentRevoked h (msg_sender c) reason]\<rparr>"
    by (simp add: revokeDocument_def)
  have again: "\<exists>e. revokeDocument c2 h reason2 s' = Inl e"
    using reg by (simp add: s' revokeDocument_def)
  have again_same: "revokeDocument c h reason2 s' = Inl (Revert ''Document already revoked'')"
    using reg role by (simp add: s' revokeDocument_def)
  have kind: "kind_of (Revert ''Document already revoked'') = StateConflictError"
    by (simp add: validation_reasons_def authorization_reasons_def conflict_reasons_def)
  have tx: "fst (transact (revokeDocument c2 h reason2) s') = s'"
    using again by (auto simp: transact_def)
  have ver: "verifyDocument s' h = (True, False, (documents s h)\<lparr>isRevoked := True\<rparr>)"
    using reg by (simp add: s' verifyDocument_def)
  have gen: "verifyDocument st k =
            (docHash (documents st k) \<noteq> 0,
             docHash (documents st k) \<noteq> 0 \<and> \<not> isRevoked (documents st k),
             documents st k)"
    by (simp add: verifyDocument_def Let_def)
  from reg nrev again again_same kind tx ver gen show ?thesis by blast
qed

theorem C9_witness:
  "revokeDocument deployer 7 ''void'' registry1 = Inr registry2
   \<and> revokeDocument deployer 7 ''void again'' registry2 = Inl (Revert ''Document already revoked'')
   \<and> fst (transact (revokeDocument outsider 7 ''void again'') registry2) = registry2
   \<and> verifyDocument registry2 7 = (True, False, (documents registry1 7)\<lparr>isRevoked := True\<rparr>)
   \<and> fst (verifyDocument registry1 7) \<and> fst (snd (verifyDocument registry1 7))"
proof -
  have h: "revokeDocument deployer 7 ''void'' registry1 = Inr registry2"
    by (simp add: revokeDocument_def registry2_def registry1_def registry0_def
        DocumentRegistry_constructor_def deployer_def hasRole_def grantRole'_def)
  have v: "fst (verifyDocument registry1 7) \<and> fst (snd (verifyDocument registry1 7))"
    by (simp add: verifyDocument_def registry1_def)
  have d: "documents registry2 7 = (documents registry1 7)\<lparr>isRevoked := True\<rparr>"
    by (simp add: registry2_def)
  from C9_revokeDocument_verifyDocument [OF h, of outsider "''void again''"] v h d
  show ?thesis by simp
qed

text \<open>
  Claim C10. Registration is gated by the document-manager role: for a caller that does
  not hold it, \<open>registerDocument\<close> and \<open>batchRegisterDocuments\<close> both fail with the
  access-control error, an authorization error, whatever their arguments, and the
  registry is left as it was; so a registration that succeeds was made by a document
  manager.
\<close>

theorem C10_registration_needs_document_manager:
  assumes "\<not> hasRole (dr_roles s) DOCUMENT_MANAGER_ROLE (msg_sender c)"
  shows "registerDocument c h t r s
           = Inl (AccessControlUnauthorizedAccount (msg_sender c) DOCUMENT_MANAGER_ROLE)
       \<and> batchRegisterDocuments c hs ts rs s
           = Inl (AccessControlUnauthorizedAccount (msg_sender c) DOCUMENT_MANAGER_ROLE)
       \<and> kind_of (AccessControlUnauthorizedAccount (msg_sender c) DOCUMENT_MANAGER_ROLE)
           = AuthorizationError
       \<and> fst (transact (registerDocument c h t r) s) = s
       \<and> fst (transact (batchRegisterDocuments c hs ts rs) s) = s"
  using assms
  by (simp add: registerDocument_def batchRegisterDocuments_def transact_def)

theorem C10_witness:
  "\<not> hasRole (dr_roles registry1) DOCUMENT_MANAGER_ROLE (msg_sender outsider)
   \<and> registerDocument outsider 8 Receipt ''R-8'' registry1
        = Inl (AccessControlUnauthorizedAccount 9 DOCUMENT_MANAGER_ROLE)
   \<and> batchRegisterDocuments outsider [8, 10] [Receipt, Other] [''R-8'', ''O-10''] registry1
        = Inl (AccessControlUnauthorizedAccount 9 DOCUMENT_MANAGER_ROLE)
   \<and> fst (transact (registerDocument outsider 8 Receipt ''R-8'') registry1) = registry1
   \<and> (\<exists>s'. registerDocument deployer 8 Receipt ''R-8'' registry1 = Inr s')"
proof -
  have h: "\<not> hasRole (dr_roles registry1) DOCUMENT_MANAGER_ROLE (msg_sender outsider)"
    by (simp add: registry1_def registry0_def DocumentRegistry_constructor_def
        deployer_def outsider_def hasRole_def grantRole'_def no_roles_def)
  have ok: "\<exists>s'. registerDocument deployer 8 Receipt ''R-8'' registry1 = Inr s'"
    by (simp add: registerDocument_def storeDocument_def registry1_def registry0_def
        DocumentRegistry_constructor_def deployer_def hasRole_def grantRole'_def
        zero_Document_def)
  from C10_registration_needs_document_manager
         [OF h, of 8 Receipt "''R-8''" "[8, 10]" "[Receipt, Other]" "[''R-8'', ''O-10'']"] h ok
  show ?thesis by (simp add: outsider_def)
qed

section \<open>Properties of the TokenRegistry\<close>

text \<open>Reading checked \<open>uint256\<close> arithmetic as arithmetic on the naturals.\<close>

lemma unat_pow10:
  assumes "(10::nat) ^ n < 2 ^ 256"
  shows "unat ((10::256 word) ^ n) = 10 ^ n"
proof -
  have "(10::256 word) ^ n = of_nat (10 ^ n)" by simp
  then have "unat ((10::256 word) ^ n) = (10 ^ n) mod 2 ^ 256"
    by (simp only: unat_of_nat) simp
  with assms show ?thesis by simp
qed

lemma unat_checked_mul:
  fixes a b :: "256 word"
  assumes "unat a * unat b < 2 ^ 256"
  shows "unat (a * b) = unat a * unat b"
  using assms unat_mult_lem [of a b] by simp

text \<open>
  Claim C7. For two known tokens whose symbols hash differently and whose prices are both
  nonzero, \<open>convertAmount\<close> returns \<open>usdValue * 10^decimalsTo div priceTo\<close> with
  \<open>usdValue = amount * priceFrom div 10^decimalsFrom\<close>, both divisions truncating,
  whenever the two products and the two powers of ten fit in 256 bits; when one of them
  does not, the checked arithmetic reverts with \<open>Panic\<close>. In the scenario of the
  specification, 3000 USDC convert to exactly 1 ETH.
\<close>

theorem C7_convertAmount_formula:
  assumes "ti_tokenAddress (tokenInfos s fromSymbol) \<noteq> 0"
    and "ti_tokenAddress (tokenInfos s toSymbol) \<noteq> 0"
    and "keccak256 e (bytes_of_string fromSymbol) \<noteq> keccak256 e (bytes_of_string toSymbol)"
    and "lastPrice (priceFeeds s fromSymbol) \<noteq> 0"
    and "lastPrice (priceFeeds s toSymbol) \<noteq> 0"
  shows "let priceFrom = unat (lastPrice (priceFeeds s fromSymbol));
             priceTo = unat (lastPrice (priceFeeds s toSymbol));
             decimalsFrom = unat (decimals (tokenInfos s fromSymbol));
             decimalsTo = unat (decimals (tokenInfos s toSymbol));
             usdValue = unat amount' * priceFrom div 10 ^ decimalsFrom;
             result = usdValue * 10 ^ decimalsTo div priceTo
         in if unat amount' * priceFrom < 2 ^ 256 \<and> (10::nat) ^ decimalsFrom < 2 ^ 256
               \<and> (10::nat) ^ decimalsTo < 2 ^ 256 \<and> usdValue * 10 ^ decimalsTo < 2 ^ 256
            then \<exists>r. convertAmount e s fromSymbol toSymbol amount' = Inr r \<and> unat r = result
            else convertAmount e s fromSymbol toSymbol amount' = Inl Panic"
proof -
  let ?pf = "lastPrice (priceFeeds s fromSymbol)"
  let ?pt = "lastPrice (priceFeeds s toSymbol)"
  let ?df = "unat (decimals (tokenInfos s fromSymbol))"
  let ?dt = "unat (decimals (tokenInfos s toSymbol))"
  let ?usd = "(amount' * ?pf) div (10 ^ ?df)"
  have pos: "0 < ?pf" "0 < ?pt"
    using assms(4,5) by (simp_all add: word_greater_zero_iff)
  show ?thesis
  proof (cases "unat amount' * unat ?pf < 2 ^ 256 \<and> (10::nat) ^ ?df < 2 ^ 256")
    case False
    then show ?thesis
      using assms(1,2,3) pos by (auto simp: convertAmount_def Let_def)
  next
    case True
    then have m1: "unat (amount' * ?pf) = unat amount' * unat ?pf"
      and p1: "unat ((10::256 word) ^ ?df) = 10 ^ ?df"
      by (simp_all add: unat_checked_mul unat_pow10)
    have usd: "unat ?usd = unat amount' * unat ?pf div 10 ^ ?df"
      by (simp add: unat_div m1 p1)
    show ?thesis
    proof (cases "(10::nat) ^ ?dt < 2 ^ 256 \<and> unat ?usd * 10 ^ ?dt < 2 ^ 256")
      case False
      then show ?thesis
        using assms(1,2,3) pos True usd by (auto simp: convertAmount_def Let_def)
    next
      case ok: True
      then have p2: "unat ((10::256 word) ^ ?dt) = 10 ^ ?dt"
        by (simp add: unat_pow10)
      from ok have m2: "unat (?usd * 10 ^ ?dt) = unat ?usd * 10 ^ ?dt"
        using unat_checked_mul [of ?usd "10 ^ ?dt"] p2 by simp
      have res: "unat ((?usd * 10 ^ ?dt) div ?pt)
          = unat amount' * unat ?pf div 10 ^ ?df * 10 ^ ?dt div unat ?pt"
        by (simp add: unat_div m2 m1 p1)
      have "convertAmount e s fromSymbol toSymbol amount' = Inr ((?usd * 10 ^ ?dt) div ?pt)"
        using assms(1,2,3) pos True ok by (simp add: convertAmount_def Let_def)
      with res True ok usd show ?thesis by (simp add: Let_def)
    qed
  qed
qed


text \<open>Facts about the example registry.\<close>

lemma example_symbols_differ:
  "keccak256 example_env (bytes_of_string ''USDC'') \<noteq> keccak256 example_env (bytes_of_string ''ETH'')"
  "keccak256 example_env (bytes_of_string ''USDC'') \<noteq> keccak256 example_env (bytes_of_string ''DAI'')"
  by (simp_all add: example_env_def example_hash_def bytes_of_string_def)

lemma tokens1_values:
  "ti_tokenAddress (tokenInfos tokens1 ''USDC'') = 20"
  "ti_tokenAddress (tokenInfos tokens1 ''ETH'') = 21"
  "ti_tokenAddress (tokenInfos tokens1 ''DAI'') = 22"
  "ti_tokenAddress (tokenInfos tokens1 ''BTC'') = 0"
  "decimals (tokenInfos tokens1 ''USDC'') = 6"
  "decimals (tokenInfos tokens1 ''ETH'') = 18"
  "lastPrice (priceFeeds tokens1 ''USDC'') = 100000000"
  "lastPrice (priceFeeds tokens1 ''ETH'') = 300000000000"
  "lastPrice (priceFeeds tokens1 ''DAI'') = 0"
  by (simp_all add: tokens1_def tokens0_def TokenRegistry_constructor_def
      zero_TokenInfo_def zero_PriceFeed_def)

theorem C7_witness:
  "ti_tokenAddress (tokenInfos tokens1 ''USDC'') \<noteq> 0
   \<and> ti_tokenAddress (tokenInfos tokens1 ''ETH'') \<noteq> 0
   \<and> keccak256 example_env (bytes_of_string ''USDC'')
       \<noteq> keccak256 example_env (bytes_of_string ''ETH'')
   \<and> lastPrice (priceFeeds tokens1 ''USDC'') = 100000000
   \<and> lastPrice (priceFeeds tokens1 ''ETH'') = 300000000000
   \<and> convertAmount example_env tokens1 ''USDC'' ''ETH'' 3000000000 = Inr 1000000000000000000
   \<and> convertAmount example_env tokens1 ''USDC'' ''ETH'' (2 ^ 255) = Inl Panic"
proof -
  have h: "ti_tokenAddress (tokenInfos tokens1 ''USDC'') \<noteq> 0"
    "ti_tokenAddress (tokenInfos tokens1 ''ETH'') \<noteq> 0"
    "keccak256 example_env (bytes_of_string ''USDC'')
       \<noteq> keccak256 example_env (bytes_of_string ''ETH'')"
    "lastPrice (priceFeeds tokens1 ''USDC'') \<noteq> 0"
    "lastPrice (priceFeeds tokens1 ''ETH'') \<noteq> 0"
    by (simp_all add: tokens1_values example_symbols_differ)
  from C7_convertAmount_formula [OF h, of 3000000000]
  obtain r where r: "convertAmount example_env tokens1 ''USDC'' ''ETH'' 3000000000 = Inr r"
      and u: "unat r = 1000000000000000000"
    by (auto simp: tokens1_values Let_def)
  have "r = of_nat (unat r)" by simp
  with u have "r = 1000000000000000000" by simp
  with r have ex: "convertAmount example_env tokens1 ''USDC'' ''ETH'' 3000000000
      = Inr 1000000000000000000" by simp
  from C7_convertAmount_formula [OF h, of "2 ^ 255"]
  have big: "convertAmount example_env tokens1 ''USDC'' ''ETH'' (2 ^ 255) = Inl Panic"
    by (simp add: tokens1_values Let_def)
  from h ex big show ?thesis by (simp add: tokens1_values)
qed

text \<open>
  Claim C8. \<open>convertAmount\<close> fails when either symbol is unknown, and, for symbols that
  hash differently, when either price is zero. For a known token it returns the amount
  unchanged when source and destination are the same symbol, whatever the price table
  holds, so also for a token whose price is zero.
\<close>

theorem C8_convertAmount_failures_and_identity:
  "(ti_tokenAddress (tokenInfos s fromSymbol) = 0 \<or> ti_tokenAddress (tokenInfos s toSymbol) = 0
      \<longrightarrow> (\<exists>err. convertAmount e s fromSymbol toSymbol amount' = Inl err))
   \<and> (keccak256 e (bytes_of_string fromSymbol) \<noteq> keccak256 e (bytes_of_string toSymbol)
        \<and> (lastPrice (priceFeeds s fromSymbol) = 0 \<or> lastPrice (priceFeeds s toSymbol) = 0)
      \<longrightarrow> (\<exists>err. convertAmount e s fromSymbol toSymbol amount' = Inl err))
   \<and> (ti_tokenAddress (tokenInfos s symb) \<noteq> 0
      \<longrightarrow> convertAmount e s symb symb x = Inr x
        \<and> convertAmount e (s\<lparr>priceFeeds := feeds\<rparr>) symb symb x = Inr x)"
  by (auto simp: convertAmount_def Let_def)

theorem C8_witness:
  "ti_tokenAddress (tokenInfos tokens1 ''BTC'') = 0
   \<and> (\<exists>err. convertAmount example_env tokens1 ''BTC'' ''ETH'' 5 = Inl err)
   \<and> keccak256 example_env (bytes_of_string ''USDC'')
       \<noteq> keccak256 example_env (bytes_of_string ''DAI'')
   \<and> lastPrice (priceFeeds tokens1 ''DAI'') = 0
   \<and> (\<exists>err. convertAmount example_env tokens1 ''USDC'' ''DAI'' 5 = Inl err)
   \<and> ti_tokenAddress (tokenInfos tokens1 ''DAI'') \<noteq> 0
   \<and> convertAmount example_env tokens1 ''DAI'' ''DAI'' 12345 = Inr 12345
   \<and> convertAmount example_env (tokens1\<lparr>priceFeeds := (\<lambda>k. zero_PriceFeed)\<rparr>)
        ''DAI'' ''DAI'' 12345 = Inr 12345"
  using C8_convertAmount_failures_and_identity
          [of tokens1 "''BTC''" "''ETH''" example_env 5 "''DAI''" 12345 "\<lambda>k. zero_PriceFeed"]
        C8_convertAmount_failures_and_identity
          [of tokens1 "''USDC''" "''DAI''" example_env 5 "''DAI''" 12345 "\<lambda>k. zero_PriceFeed"]
  by (simp add: tokens1_values example_symbols_differ)


section \<open>Properties of the RecurringPayment scheduler\<close>

lemma scheduler1_reached:
  "createRecurringPayment subscriber 11 4 20 100 2592000 2000 77 scheduler0 = Inr scheduler1"
  by (simp add: createRecurringPayment_def subscriber_def scheduler0_def scheduler1_def
      zero_RecurringPayment_def subscription11_def Let_def)

lemma cancel_cases:
  "cancelRecurringPayment c i s =
     (if rp_id (recurringPayments s i) = 0 then Inl (Revert ''Payment does not exist'')
      else if rp_payer (recurringPayments s i) \<noteq> msg_sender c
              \<and> \<not> hasRole (rp_roles s) PAYMENT_MANAGER_ROLE (msg_sender c)
      then Inl (Revert ''Not authorized'')
      else Inr (s\<lparr>recurringPayments := (recurringPayments s)(i :=
                    (recurringPayments s i)\<lparr>isActive := False\<rparr>),
                  rp_events := rp_events s @ [RecurringPaymentCancelled i]\<rparr>))"
  by (simp add: cancelRecurringPayment_def Let_def)

lemma create_keeps_cancelled:
  "cancelled s i \<Longrightarrow> createRecurringPayment c j p t a f d r s = Inr s' \<Longrightarrow> cancelled s' i"
  by (auto simp: createRecurringPayment_def cancelled_def Let_def split: if_splits)

lemma cancel_keeps_cancelled:
  "cancelled s i \<Longrightarrow> cancelRecurringPayment c j s = Inr s' \<Longrightarrow> cancelled s' i"
  by (auto simp: cancel_cases cancelled_def split: if_splits)

lemma update_keeps_cancelled:
  "cancelled s i \<Longrightarrow> updateRecurringPayment c j a f s = Inr s' \<Longrightarrow> cancelled s' i"
  by (auto simp: updateRecurringPayment_def cancelled_def Let_def split: if_splits)

lemma setProcessor_keeps_cancelled:
  "cancelled s i \<Longrightarrow> setPaymentProcessor c p s = Inr s' \<Longrightarrow> cancelled s' i"
  by (auto simp: setPaymentProcessor_def cancelled_def split: if_splits)

lemma execute_subscriptions:
  assumes "executeRecurringPayment e c j w = Inr w'"
  shows "rp_id (recurringPayments (fst w) j) \<noteq> 0 \<and> isActive (recurringPayments (fst w) j)
    \<and> nextPaymentDue (recurringPayments (fst w) j) \<le> block_timestamp c
    \<and> unat (nextPaymentDue (recurringPayments (fst w) j))
        + unat (frequency (recurringPayments (fst w) j)) < 2 ^ 256
    \<and> recurringPayments (fst w') = (recurringPayments (fst w))(j :=
        (recurringPayments (fst w) j)\<lparr>nextPaymentDue :=
           nextPaymentDue (recurringPayments (fst w) j) + frequency (recurringPayments (fst w) j)\<rparr>)"
  using assms
  by (auto simp: executeRecurringPayment_def Let_def split: if_splits sum.splits prod.splits)


lemma processor1_values:
  "hasRole (pp_roles processor1) PAYMENT_MANAGER_ROLE 60"
  "hasRole (pp_roles processor1) PAYMENT_MANAGER_ROLE 1"
  "hasRole (pp_roles processor1) PAYMENT_MANAGER_ROLE 2"
  "\<not> hasRole (pp_roles processor1) PAYMENT_MANAGER_ROLE 3"
  "payments processor1 k = zero_PaymentRecord"
  "processedPayments processor1 k = False"
  "platformFeePercentage processor1 = 250"
  "feeCollector processor1 = 5"
  by (simp_all add: processor1_def hasRole_def grantRole'_def no_roles_def)

lemma execute_keeps_cancelled:
  assumes "cancelled (fst w) i" and "executeRecurringPayment e c j w = Inr w'"
  shows "cancelled (fst w') i"
proof -
  from execute_subscriptions [OF assms(2)]
  have act: "isActive (recurringPayments (fst w) j)"
    and upd: "recurringPayments (fst w') = (recurringPayments (fst w))(j :=
        (recurringPayments (fst w) j)\<lparr>nextPaymentDue :=
           nextPaymentDue (recurringPayments (fst w) j) + frequency (recurringPayments (fst w) j)\<rparr>)"
    by simp_all
  from assms(1) act have "j \<noteq> i" by (auto simp: cancelled_def)
  with assms(1) upd show ?thesis by (simp add: cancelled_def)
qed

lemma recurringCall_keeps_cancelled:
  assumes "cancelled (fst w) i"
  shows "cancelled (fst (fst (transact (recurringCall e c call) w))) i"
proof (cases "recurringCall e c call w")
  case (Inl err)
  with assms show ?thesis by (simp add: transact_def)
next
  case (Inr w')
  have "cancelled (fst w') i"
  proof (cases call)
    case (Create j p t a f d r)
    with Inr assms show ?thesis
      by (auto split: sum.splits dest: create_keeps_cancelled)
  next
    case (Execute j)
    with Inr assms show ?thesis by (auto dest: execute_keeps_cancelled)
  next
    case (Cancel j)
    with Inr assms show ?thesis
      by (auto split: sum.splits dest: cancel_keeps_cancelled)
  next
    case (Update j a f)
    with Inr assms show ?thesis
      by (auto split: sum.splits dest: update_keeps_cancelled)
  next
    case (SetProcessor p)
    with Inr assms show ?thesis
      by (auto split: sum.splits dest: setProcessor_keeps_cancelled)
  qed
  with Inr show ?thesis by (simp add: transact_def)
qed

lemma recurringCalls_keep_cancelled:
  "cancelled (fst w) i \<Longrightarrow> cancelled (fst (recurringCalls e calls w)) i"
proof (induction calls arbitrary: w)
  case Nil
  then show ?case by simp
next
  case (Cons a calls)
  obtain c call where a: "a = (c, call)" by (cases a)
  from Cons.prems have "cancelled (fst (fst (transact (recurringCall e c call) w))) i"
    by (rule recurringCall_keeps_cancelled)
  then show ?case using Cons.IH a by simp
qed

lemma scheduler1_values:
  "recurringPayments scheduler1 11 = subscription11"
  "recurringPayments scheduler1 99 = zero_RecurringPayment"
  "\<not> hasRole (rp_roles scheduler1) PAYMENT_MANAGER_ROLE 8"
  "recurringPayments scheduler2 11 = subscription11\<lparr>isActive := False\<rparr>"
  by (simp_all add: scheduler2_def scheduler1_def scheduler0_def hasRole_def grantRole'_def no_roles_def)

text \<open>
  What \<open>cancelRecurringPayment\<close> does in general. It fails when no record with a nonzero
  identifier is stored under the identifier, and when the caller is neither the stored
  payer nor a payment manager. Otherwise it succeeds, whether the subscription is active
  or not: it clears \<open>isActive\<close> and appends the event, and on a subscription that is
  already cancelled it changes the event log only. A cancelled subscription stays
  cancelled through every later sequence of calls to the scheduler's entry points
  (create, execute, cancel, update and \<open>setPaymentProcessor\<close>).
\<close>

lemma cancelRecurringPayment_behaviour:
  "(rp_id (recurringPayments s i) = 0
      \<longrightarrow> cancelRecurringPayment c i s = Inl (Revert ''Payment does not exist''))
   \<and> (rp_id (recurringPayments s i) \<noteq> 0 \<and> rp_payer (recurringPayments s i) \<noteq> msg_sender c
        \<and> \<not> hasRole (rp_roles s) PAYMENT_MANAGER_ROLE (msg_sender c)
      \<longrightarrow> cancelRecurringPayment c i s = Inl (Revert ''Not authorized''))
   \<and> (rp_id (recurringPayments s i) \<noteq> 0
        \<and> (rp_payer (recurringPayments s i) = msg_sender c
             \<or> hasRole (rp_roles s) PAYMENT_MANAGER_ROLE (msg_sender c))
      \<longrightarrow> cancelRecurringPayment c i s
            = Inr (s\<lparr>recurringPayments := (recurringPayments s)(i :=
                       (recurringPayments s i)\<lparr>isActive := False\<rparr>),
                     rp_events := rp_events s @ [RecurringPaymentCancelled i]\<rparr>)
          \<and> (cancelled s i \<longrightarrow> cancelRecurringPayment c i s
                = Inr (s\<lparr>rp_events := rp_events s @ [RecurringPaymentCancelled i]\<rparr>))
          \<and> (\<forall>e calls pp l. cancelled (fst (recurringCalls e calls
                (s\<lparr>recurringPayments := (recurringPayments s)(i :=
                      (recurringPayments s i)\<lparr>isActive := False\<rparr>),
                    rp_events := rp_events s @ [RecurringPaymentCancelled i]\<rparr>, pp, l))) i))"
proof -
  have irrev: "\<forall>e calls pp l. cancelled (fst (recurringCalls e calls (s', pp, l))) i"
    if "cancelled s' i" for s'
    using that recurringCalls_keep_cancelled [of "(s', _, _)" i] by simp
  have same: "(recurringPayments s)(i := (recurringPayments s i)\<lparr>isActive := False\<rparr>)
      = recurringPayments s" if "cancelled s i"
    using that by (simp add: cancelled_def fun_upd_idem_iff)
  show ?thesis
    using irrev same by (auto simp: cancel_cases cancelled_def)
qed

text \<open>
  Claim C2 says that \<open>cancelRecurringPayment\<close> succeeds only on a subscription that is
  still active, so that a second cancel of the same subscription fails. The code does
  not do that: \<open>cancelRecurringPayment\<close> has no \<open>require\<close> on \<open>isActive\<close>. The payer (3)
  cancels subscription 11, which leaves it inactive, and the payer's second cancel of it
  succeeds again and emits the event a second time. On the same cancelled subscription
  \<open>updateRecurringPayment\<close> and \<open>executeRecurringPayment\<close> do fail, with "Payment is not
  active": they carry the guard that the cancellation lacks.
\<close>

theorem C2_second_cancel_succeeds:
  "createRecurringPayment subscriber 11 4 20 100 2592000 2000 77 scheduler0 = Inr scheduler1
   \<and> cancelRecurringPayment subscriber 11 scheduler1 = Inr scheduler2
   \<and> \<not> isActive (recurringPayments scheduler2 11)
   \<and> cancelRecurringPayment subscriber 11 scheduler2
       = Inr (scheduler2\<lparr>rp_events := rp_events scheduler2 @ [RecurringPaymentCancelled 11]\<rparr>)
   \<and> updateRecurringPayment subscriber 11 5 5 scheduler2 = Inl (Revert ''Payment is not active'')
   \<and> executeRecurringPayment example_env keeper 11 (scheduler2, processor1, ledger1)
       = Inl (Revert ''Payment is not active'')"
proof -
  have cancels: "cancelRecurringPayment subscriber 11 scheduler1 = Inr scheduler2
      \<and> \<not> isActive (recurringPayments scheduler2 11)
      \<and> cancelRecurringPayment subscriber 11 scheduler2
          = Inr (scheduler2\<lparr>rp_events := rp_events scheduler2 @ [RecurringPaymentCancelled 11]\<rparr>)"
    by (simp add: cancel_cases scheduler2_def scheduler1_def subscription11_def subscriber_def)
  have update: "updateRecurringPayment subscriber 11 5 5 scheduler2
      = Inl (Revert ''Payment is not active'')"
    by (simp add: updateRecurringPayment_def Let_def scheduler1_values subscription11_def)
  have execute: "executeRecurringPayment example_env keeper 11 (scheduler2, processor1, ledger1)
      = Inl (Revert ''Payment is not active'')"
    by (simp add: executeRecurringPayment_def Let_def scheduler1_values subscription11_def)
  from scheduler1_reached cancels update execute show ?thesis by simp
qed

lemma cancelRecurringPayment_examples:
  "cancelRecurringPayment subscriber 99 scheduler1 = Inl (Revert ''Payment does not exist'')
   \<and> cancelRecurringPayment keeper 11 scheduler1 = Inl (Revert ''Not authorized'')
   \<and> cancelled (fst (recurringCalls example_env
         [(keeper, Execute 11), (subscriber, Update 11 5 5),
          (subscriber, Create 11 4 20 100 2592000 9000 77)]
         (scheduler2, processor1, ledger1))) 11"
proof -
  have c: "cancelled scheduler2 11"
    by (simp add: cancelled_def scheduler1_values subscription11_def)
  from cancelRecurringPayment_behaviour [of scheduler1 99 subscriber]
  have a: "cancelRecurringPayment subscriber 99 scheduler1 = Inl (Revert ''Payment does not exist'')"
    by (simp add: scheduler1_values zero_RecurringPayment_def)
  from cancelRecurringPayment_behaviour [of scheduler1 11 keeper]
  have b: "cancelRecurringPayment keeper 11 scheduler1 = Inl (Revert ''Not authorized'')"
    by (simp add: scheduler1_values subscription11_def keeper_def)
  have d: "cancelled (fst (recurringCalls example_env
         [(keeper, Execute 11), (subscriber, Update 11 5 5),
          (subscriber, Create 11 4 20 100 2592000 9000 77)]
         (scheduler2, processor1, ledger1))) 11"
    by (rule recurringCalls_keep_cancelled) (simp add: c)
  from a b d show ?thesis by blast
qed

text \<open>
  Claim C6. \<open>executeRecurringPayment\<close> succeeds only when the subscription exists, is
  active and is due (\<open>nextPaymentDue \<le> block.timestamp\<close>). After a successful execution
  the new due date is the previous one plus the frequency, exactly, and nothing else of
  the subscription has changed; the new due date is the same whatever the time and the
  caller of the execution.
\<close>

theorem C6_executeRecurringPayment_schedule:
  assumes "executeRecurringPayment e c i w = Inr w'"
  shows "rp_id (recurringPayments (fst w) i) \<noteq> 0
       \<and> isActive (recurringPayments (fst w) i)
       \<and> nextPaymentDue (recurringPayments (fst w) i) \<le> block_timestamp c
       \<and> unat (nextPaymentDue (recurringPayments (fst w') i))
           = unat (nextPaymentDue (recurringPayments (fst w) i))
             + unat (frequency (recurringPayments (fst w) i))
       \<and> recurringPayments (fst w') i = (recurringPayments (fst w) i)
           \<lparr>nextPaymentDue := nextPaymentDue (recurringPayments (fst w) i)
              + frequency (recurringPayments (fst w) i)\<rparr>
       \<and> (executeRecurringPayment e c2 i w = Inr w2
            \<longrightarrow> nextPaymentDue (recurringPayments (fst w2) i)
                = nextPaymentDue (recurringPayments (fst w') i))"
proof -
  let ?old = "recurringPayments (fst w) i"
  from execute_subscriptions [OF assms]
  have ex: "rp_id ?old \<noteq> 0" and act: "isActive ?old"
    and due: "nextPaymentDue ?old \<le> block_timestamp c"
    and fits: "unat (nextPaymentDue ?old) + unat (frequency ?old) < 2 ^ 256"
    and upd: "recurringPayments (fst w') = (recurringPayments (fst w))(i :=
        ?old\<lparr>nextPaymentDue := nextPaymentDue ?old + frequency ?old\<rparr>)"
    by simp_all
  from fits have sum: "unat (nextPaymentDue ?old + frequency ?old)
      = unat (nextPaymentDue ?old) + unat (frequency ?old)"
    using unat_add_lem [of "nextPaymentDue ?old" "frequency ?old"] by simp
  have other: "nextPaymentDue (recurringPayments (fst w2) i)
      = nextPaymentDue (recurringPayments (fst w') i)"
    if "executeRecurringPayment e c2 i w = Inr w2"
    using execute_subscriptions [OF that] upd by simp
  from ex act due sum upd other show ?thesis by simp
qed

lemma execute_example:
  "\<exists>w'. executeRecurringPayment example_env keeper 11 (scheduler1, processor1, ledger1) = Inr w'"
  by (simp add: executeRecurringPayment_def Let_def scheduler1_def subscription11_def
      keeper_def scheduler0_def erc20_approve_def processPayment_def processor1_values
      zero_PaymentRecord_def checkSignature_def ledger1_def erc20_transferFrom_def erc20_move_def)

theorem C6_witness:
  "\<not> isl (executeRecurringPayment example_env keeper 11 (scheduler1, processor1, ledger1))
   \<and> nextPaymentDue (recurringPayments scheduler1 11) = 2000
   \<and> block_timestamp keeper = 5000
   \<and> nextPaymentDue (recurringPayments (fst (projr
         (executeRecurringPayment example_env keeper 11 (scheduler1, processor1, ledger1)))) 11)
       = 2594000
   \<and> isl (executeRecurringPayment example_env subscriber 11 (scheduler1, processor1, ledger1))
   \<and> isl (executeRecurringPayment example_env keeper 11 (scheduler2, processor1, ledger1))"
proof -
  from execute_example obtain w'
    where h: "executeRecurringPayment example_env keeper 11 (scheduler1, processor1, ledger1) = Inr w'"
    by blast
  from C6_executeRecurringPayment_schedule [OF h]
  have "recurringPayments (fst w') 11 = subscription11\<lparr>nextPaymentDue := 2000 + 2592000\<rparr>"
    by (simp add: scheduler1_values subscription11_def)
  then have n: "nextPaymentDue (recurringPayments (fst w') 11) = 2594000" by simp
  have early: "isl (executeRecurringPayment example_env subscriber 11 (scheduler1, processor1, ledger1))"
    by (simp add: executeRecurringPayment_def Let_def scheduler1_values subscription11_def
        subscriber_def)
  have inactive: "isl (executeRecurringPayment example_env keeper 11 (scheduler2, processor1, ledger1))"
    by (simp add: executeRecurringPayment_def Let_def scheduler1_values subscription11_def)
  from h n early inactive show ?thesis
    by (simp add: scheduler1_values subscription11_def keeper_def)
qed

section \<open>Properties of the PaymentProcessor\<close>

text \<open>What a successful token operation adds to the log, and what a successful
  \<open>processPayment\<close> has checked and written.\<close>

lemma erc20_move_events:
  "erc20_move l t f to v = Inr l' \<Longrightarrow> token_events l' = token_events l @ [Transfer t f to v]"
  by (auto simp: erc20_move_def Let_def split: if_splits)

lemma erc20_transferFrom_events:
  "erc20_transferFrom l t caller f to v = Inr l'
     \<Longrightarrow> token_events l' = token_events l @ [Transfer t f to v]"
  by (auto simp: erc20_transferFrom_def Let_def split: if_splits dest!: erc20_move_events)

lemma erc20_transfer_events:
  "erc20_transfer l t caller to v = Inr l'
     \<Longrightarrow> token_events l' = token_events l @ [Transfer t caller to v]"
  by (simp add: erc20_transfer_def erc20_move_events)

lemma processPayment_success:
  assumes "processPayment e c pid p t a r sig w = Inr w'"
  shows "p \<noteq> 0" and "t \<noteq> 0" and "a \<noteq> 0"
    and "paymentId (payments (fst w) pid) = 0"
    and "\<not> processedPayments (fst w) (keccak256 e (encodePacked [B32 pid, Addr p, Addr t, U256 a]))"
    and "checkSignature e c (fst w) pid p t a r sig = None"
    and "unat a * unat (platformFeePercentage (fst w)) < 2 ^ 256"
    and "(a * platformFeePercentage (fst w)) div 10000 \<le> a"
    and "fst w' = (fst w)\<lparr>
           processedPayments := (processedPayments (fst w))
             (keccak256 e (encodePacked [B32 pid, Addr p, Addr t, U256 a]) := True),
           payments := (payments (fst w))(pid :=
             \<lparr>paymentId = pid, payer = msg_sender c, payee = p, tokenAddress = t, amount = a,
              feeAmount = (a * platformFeePercentage (fst w)) div 10000,
              timestamp = block_timestamp c, referenceHash = r\<rparr>),
           pp_events := pp_events (fst w) @
             [PaymentProcessed pid (msg_sender c) p t a
                ((a * platformFeePercentage (fst w)) div 10000) r]\<rparr>"
    and "\<exists>l1. erc20_transferFrom (snd w) t (this_address c) (msg_sender c) p
                 (a - (a * platformFeePercentage (fst w)) div 10000) = Inr l1
             \<and> (if 0 < (a * platformFeePercentage (fst w)) div 10000
                 then erc20_transferFrom l1 t (this_address c) (msg_sender c)
                        (feeCollector (fst w)) ((a * platformFeePercentage (fst w)) div 10000)
                      = Inr (snd w')
                 else snd w' = l1)"
  using assms
  by (auto simp: processPayment_def Let_def word_greater_zero_iff
      split: if_splits option.splits sum.splits)


lemma fee_split:
  fixes a bps :: uint256
  assumes "unat a * unat bps < 2 ^ 256" and "(a * bps) div 10000 \<le> a"
  shows "unat ((a * bps) div 10000) = unat a * unat bps div 10000"
    and "unat (a - (a * bps) div 10000) + unat ((a * bps) div 10000) = unat a"
proof -
  show "unat ((a * bps) div 10000) = unat a * unat bps div 10000"
    using assms(1) by (simp add: unat_div unat_checked_mul)
  from assms(2) have "unat (a - (a * bps) div 10000) = unat a - unat ((a * bps) div 10000)"
    by (simp add: unat_sub)
  moreover from assms(2) have "unat ((a * bps) div 10000) \<le> unat a"
    by (simp add: word_le_nat_alt)
  ultimately show "unat (a - (a * bps) div 10000) + unat ((a * bps) div 10000) = unat a"
    by simp
qed

text \<open>
  Claim C3. Every payment that \<open>processPayment\<close> accepts (its amount is positive, a
  precondition of the call) moves a net amount to the payee and a fee to the collector
  with \<open>net + fee = amount\<close> and \<open>fee = amount * feeBps div 10000\<close>, rounded down; the fee
  transfer is left out when the fee is zero, and the fee is the one stored in the record.
  For 100000000 units at 250 basis points the payee receives 97500000 and the collector
  2500000.
\<close>

theorem C3_fee_split:
  assumes "processPayment e c pid p t a r sig w = Inr w'"
  shows "\<exists>payeeAmount fee.
           unat payeeAmount + unat fee = unat a
         \<and> unat fee = unat a * unat (platformFeePercentage (fst w)) div 10000
         \<and> token_events (snd w') = token_events (snd w)
             @ Transfer t (msg_sender c) p payeeAmount
             # (if 0 < fee then [Transfer t (msg_sender c) (feeCollector (fst w)) fee] else [])
         \<and> amount (payments (fst w') pid) = a
         \<and> feeAmount (payments (fst w') pid) = fee"
proof -
  let ?fee = "(a * platformFeePercentage (fst w)) div 10000"
  let ?net = "a - ?fee"
  note ok = processPayment_success [OF assms]
  from ok(10) obtain l1
    where t1: "erc20_transferFrom (snd w) t (this_address c) (msg_sender c) p ?net = Inr l1"
      and t2: "if 0 < ?fee
               then erc20_transferFrom l1 t (this_address c) (msg_sender c)
                      (feeCollector (fst w)) ?fee = Inr (snd w')
               else snd w' = l1"
    by blast
  from t1 have e1: "token_events l1 = token_events (snd w) @ [Transfer t (msg_sender c) p ?net]"
    by (rule erc20_transferFrom_events)
  have ev: "token_events (snd w') = token_events (snd w)
             @ Transfer t (msg_sender c) p ?net
             # (if 0 < ?fee then [Transfer t (msg_sender c) (feeCollector (fst w)) ?fee] else [])"
  proof (cases "0 < ?fee")
    case True
    with t2 have "token_events (snd w')
        = token_events l1 @ [Transfer t (msg_sender c) (feeCollector (fst w)) ?fee]"
      by (simp add: erc20_transferFrom_events)
    with True e1 show ?thesis by simp
  next
    case False
    with t2 e1 show ?thesis by simp
  qed
  have rec: "amount (payments (fst w') pid) = a" "feeAmount (payments (fst w') pid) = ?fee"
    by (simp_all add: ok(9))
  from fee_split [OF ok(7) ok(8)] ev rec show ?thesis by blast
qed

lemma ledger1_values:
  "balanceOf ledger1 20 1 = 1000000000"
  "balanceOf ledger1 20 3 = 1000000000"
  "balanceOf ledger1 20 4 = 0"
  "balanceOf ledger1 20 5 = 0"
  "allowance ledger1 20 1 50 = 1000000000"
  "allowance ledger1 20 3 50 = 1000000000"
  "token_events ledger1 = []"
  by (simp_all add: ledger1_def)

lemma payment_p1:
  "\<exists>s' l'. processPayment example_env deployer 28721 4 20 100000000 99 [] (processor1, ledger1)
       = Inr (s', l')
     \<and> balanceOf l' 20 4 = 97500000 \<and> balanceOf l' 20 5 = 2500000
     \<and> balanceOf l' 20 1 = 900000000"
  by (simp add: processPayment_def Let_def processor1_values zero_PaymentRecord_def
      checkSignature_def deployer_def erc20_transferFrom_def erc20_move_def ledger1_values)

theorem C3_witness:
  "\<not> isl (processPayment example_env deployer 28721 4 20 100000000 99 [] (processor1, ledger1))
   \<and> platformFeePercentage processor1 = 250
   \<and> token_events (snd (projr
         (processPayment example_env deployer 28721 4 20 100000000 99 [] (processor1, ledger1))))
       = [Transfer 20 1 4 97500000, Transfer 20 1 5 2500000]
   \<and> balanceOf (snd (projr
         (processPayment example_env deployer 28721 4 20 100000000 99 [] (processor1, ledger1)))) 20 4
       = 97500000
   \<and> balanceOf (snd (projr
         (processPayment example_env deployer 28721 4 20 100000000 99 [] (processor1, ledger1)))) 20 5
       = 2500000"
proof -
  from payment_p1 obtain s' l'
    where h: "processPayment example_env deployer 28721 4 20 100000000 99 [] (processor1, ledger1)
        = Inr (s', l')"
      and b: "balanceOf l' 20 4 = 97500000" "balanceOf l' 20 5 = 2500000"
    by blast
  from C3_fee_split [OF h] obtain payeeAmount fee
    where s: "unat payeeAmount + unat fee = 100000000"
      and f: "unat fee = 2500000"
      and ev: "token_events l' = Transfer 20 1 4 payeeAmount
                 # (if 0 < fee then [Transfer 20 1 5 fee] else [])"
    by (auto simp: processor1_values ledger1_values deployer_def)
  have "fee = of_nat (unat fee)" by simp
  with f have fee: "fee = 2500000" by simp
  from s f have "unat payeeAmount = 97500000" by simp
  moreover have "payeeAmount = of_nat (unat payeeAmount)" by simp
  ultimately have net: "payeeAmount = 97500000" by simp
  from h b ev fee net show ?thesis by (simp add: processor1_values)
qed


lemma validateLoop_result:
  "validateLoop e c tok items (s, ta, tf) = Inr (s', ta', tf') \<Longrightarrow>
     pp_roles s' = pp_roles s \<and> feeCollector s' = feeCollector s
     \<and> platformFeePercentage s' = platformFeePercentage s
     \<and> pp_events s' = pp_events s
     \<and> unat ta' = unat ta + sum_list (map (\<lambda>(i, p, a, r). unat a) items)
     \<and> unat tf' = unat tf
         + sum_list (map (\<lambda>(i, p, a, r). unat a * unat (platformFeePercentage s) div 10000) items)
     \<and> (\<forall>k. paymentId (payments s k) \<noteq> 0 \<longrightarrow> payments s' k = payments s k)
     \<and> (\<forall>h. processedPayments s h \<longrightarrow> processedPayments s' h)"
proof (induction items arbitrary: s ta tf)
  case Nil
  then show ?case by simp
next
  case (Cons item items)
  obtain i p a r where item: "item = (i, p, a, r)" by (cases item)
  let ?h = "keccak256 e (encodePacked [B32 i, Addr p, Addr tok, U256 a])"
  let ?fee = "(a * platformFeePercentage s) div 10000"
  let ?s2 = "s\<lparr>processedPayments := (processedPayments s)(?h := True),
               payments := (payments s)(i :=
                 \<lparr>paymentId = i, payer = msg_sender c, payee = p, tokenAddress = tok,
                  amount = a, feeAmount = ?fee, timestamp = block_timestamp c,
                  referenceHash = r\<rparr>)\<rparr>"
  from Cons.prems item
  have unused: "paymentId (payments s i) = 0"
    and mul: "unat a * unat (platformFeePercentage s) < 2 ^ 256"
    and add1: "unat ta + unat a < 2 ^ 256"
    and add2: "unat tf + unat ?fee < 2 ^ 256"
    and rest: "validateLoop e c tok items (?s2, ta + a, tf + ?fee) = Inr (s', ta', tf')"
    by (auto simp: Let_def split: if_splits)
  have fee: "unat ?fee = unat a * unat (platformFeePercentage s) div 10000"
    using mul by (simp add: unat_div unat_checked_mul)
  from add1 have ta: "unat (ta + a) = unat ta + unat a"
    using unat_add_lem [of ta a] by simp
  from add2 have tf: "unat (tf + ?fee) = unat tf + unat ?fee"
    using unat_add_lem [of tf ?fee] by simp
  note ih = Cons.IH [OF rest]
  have keep: "payments s' k = payments s k" if "paymentId (payments s k) \<noteq> 0" for k
  proof -
    from that unused have "k \<noteq> i" by auto
    with that have "paymentId (payments ?s2 k) \<noteq> 0" by simp
    with ih have "payments s' k = payments ?s2 k" by blast
    with \<open>k \<noteq> i\<close> show ?thesis by simp
  qed
  have mark: "processedPayments s' h" if "processedPayments s h" for h
  proof -
    from that have "processedPayments ?s2 h" by simp
    with ih show ?thesis by blast
  qed
  from ih have "unat ta' = unat (ta + a) + sum_list (map (\<lambda>(i, p, a, r). unat a) items)"
    and "unat tf' = unat (tf + ?fee)
         + sum_list (map (\<lambda>(i, p, a, r). unat a * unat (platformFeePercentage ?s2) div 10000) items)"
    by simp_all
  with ta tf fee item
  have sums: "unat ta' = unat ta + sum_list (map (\<lambda>(i, p, a, r). unat a) (item # items))"
    "unat tf' = unat tf
       + sum_list (map (\<lambda>(i, p, a, r). unat a * unat (platformFeePercentage s) div 10000)
           (item # items))"
    by simp_all
  from ih have same: "pp_roles s' = pp_roles s" "feeCollector s' = feeCollector s"
    "platformFeePercentage s' = platformFeePercentage s" "pp_events s' = pp_events s"
    by simp_all
  from same sums keep mark show ?case by blast
qed

lemma validateLoop_invalid:
  "item \<in> set items \<Longrightarrow> failsValidation e tok s item
     \<Longrightarrow> \<exists>err. validateLoop e c tok items (s, ta, tf) = Inl err"
proof (induction items arbitrary: s ta tf)
  case Nil
  then show ?case by simp
next
  case (Cons first items)
  obtain i p a r where first: "first = (i, p, a, r)" by (cases first)
  show ?case
  proof (cases "validateLoop e c tok (first # items) (s, ta, tf)")
    case (Inl err)
    then show ?thesis by blast
  next
    case (Inr res)
    let ?h = "keccak256 e (encodePacked [B32 i, Addr p, Addr tok, U256 a])"
    let ?fee = "(a * platformFeePercentage s) div 10000"
    let ?s2 = "s\<lparr>processedPayments := (processedPayments s)(?h := True),
                 payments := (payments s)(i :=
                   \<lparr>paymentId = i, payer = msg_sender c, payee = p, tokenAddress = tok,
                    amount = a, feeAmount = ?fee, timestamp = block_timestamp c,
                    referenceHash = r\<rparr>)\<rparr>"
    from Inr first
    have ok: "\<not> failsValidation e tok s first"
      and rest: "validateLoop e c tok items (?s2, ta + a, tf + ?fee) = Inr res"
      by (auto simp: Let_def failsValidation_def split: if_splits)
    from ok Cons.prems have mem: "item \<in> set items" by auto
    from ok first have unused: "paymentId (payments s i) = 0"
      by (simp add: failsValidation_def)
    have "failsValidation e tok ?s2 item"
      using Cons.prems(2) unused by (cases item) (auto simp: failsValidation_def)
    from Cons.IH [OF mem this, of "ta + a" "tf + ?fee"] rest show ?thesis by simp
  qed
qed

lemma distributeLoop_result:
  "distributeLoop c tok items (s, l) = Inr (s', l') \<Longrightarrow>
     token_events l' = token_events l
       @ map (\<lambda>(i, p, a, r). Transfer tok (this_address c) p
                (a - (a * platformFeePercentage s) div 10000)) items
     \<and> payments s' = payments s \<and> processedPayments s' = processedPayments s
     \<and> feeCollector s' = feeCollector s \<and> platformFeePercentage s' = platformFeePercentage s
     \<and> pp_roles s' = pp_roles s"
proof (induction items arbitrary: s l)
  case Nil
  then show ?case by simp
next
  case (Cons item items)
  obtain i p a r where item: "item = (i, p, a, r)" by (cases item)
  let ?fee = "(a * platformFeePercentage s) div 10000"
  from Cons.prems item obtain l1
    where t1: "erc20_transfer l tok (this_address c) p (a - ?fee) = Inr l1"
      and rest: "distributeLoop c tok items
          (s\<lparr>pp_events := pp_events s @
               [PaymentProcessed i (msg_sender c) p tok a ?fee r]\<rparr>, l1) = Inr (s', l')"
    by (auto simp: Let_def split: if_splits sum.splits)
  from t1 have "token_events l1 = token_events l @ [Transfer tok (this_address c) p (a - ?fee)]"
    by (rule erc20_transfer_events)
  with Cons.IH [OF rest] item show ?case by simp
qed


lemma items_transfers:
  "length ids = length ps \<Longrightarrow> length ps = length as \<Longrightarrow> length as = length rs \<Longrightarrow>
     map (\<lambda>(i, p, a, r). f p a) (zip ids (zip ps (zip as rs))) = map (\<lambda>(p, a). f p a) (zip ps as)"
  by (induction ids ps as rs rule: list_induct4) simp_all

lemma items_amounts:
  "length ids = length ps \<Longrightarrow> length ps = length as \<Longrightarrow> length as = length rs \<Longrightarrow>
     map (\<lambda>(i, p, a, r). g a) (zip ids (zip ps (zip as rs))) = map g as"
  by (induction ids ps as rs rule: list_induct4) simp_all

lemma processBatchPayment_success:
  assumes "processBatchPayment e c ids ps tok as rs w = Inr w'"
  shows "length ids = length ps \<and> length ps = length as \<and> length as = length rs
       \<and> (\<exists>s1 total fees l1 s2 l2.
             validateLoop e c tok (zip ids (zip ps (zip as rs))) (fst w, 0, 0) = Inr (s1, total, fees)
           \<and> erc20_transferFrom (snd w) tok (this_address c) (msg_sender c) (this_address c) total
               = Inr l1
           \<and> distributeLoop c tok (zip ids (zip ps (zip as rs))) (s1, l1) = Inr (s2, l2)
           \<and> (if 0 < fees
                then erc20_transfer l2 tok (this_address c) (feeCollector s2) fees = Inr (snd w')
                else snd w' = l2)
           \<and> fst w' = s2)"
  using assms
  by (auto simp: processBatchPayment_def Let_def split: if_splits sum.splits prod.splits)

text \<open>
  What holds of \<open>processBatchPayment\<close> in general. If an item of the batch is rejected
  by one of the four \<open>require\<close>s of the first loop, read in the state before the call,
  the call fails, and a call that fails leaves the processor's storage and the ledger as
  they were. A call that succeeds has logged these token transfers, in this order: the
  sum of all amounts from the caller to the processor itself, then to each payee its
  amount less its fee from the processor, then, when it is not zero, the sum of the fees
  to the collector.
\<close>

lemma processBatchPayment_all_or_nothing:
  "(i < length paymentIds \<and> i < length payees \<and> i < length amounts
      \<and> failsValidation e tok (fst w) (paymentIds ! i, payees ! i, amounts ! i, referenceHashes ! i)
      \<longrightarrow> (\<exists>err. processBatchPayment e c paymentIds payees tok amounts referenceHashes w = Inl err)
        \<and> fst (transact (processBatchPayment e c paymentIds payees tok amounts referenceHashes) w) = w)
   \<and> ((\<exists>err. processBatchPayment e c paymentIds payees tok amounts referenceHashes w = Inl err)
      \<longrightarrow> fst (transact (processBatchPayment e c paymentIds payees tok amounts referenceHashes) w) = w)
   \<and> (processBatchPayment e c paymentIds payees tok amounts referenceHashes w = Inr w'
      \<longrightarrow> (\<exists>total fees.
            unat total = sum_list (map unat amounts)
          \<and> unat fees = sum_list (map (\<lambda>a. unat a * unat (platformFeePercentage (fst w)) div 10000)
                              amounts)
          \<and> token_events (snd w') = token_events (snd w)
              @ [Transfer tok (msg_sender c) (this_address c) total]
              @ map (\<lambda>(p, a). Transfer tok (this_address c) p
                       (a - (a * platformFeePercentage (fst w)) div 10000)) (zip payees amounts)
              @ (if 0 < fees then [Transfer tok (this_address c) (feeCollector (fst w)) fees]
                 else [])))"
proof (intro conjI impI)
  let ?call = "processBatchPayment e c paymentIds payees tok amounts referenceHashes"
  let ?items = "zip paymentIds (zip payees (zip amounts referenceHashes))"
  show revert: "fst (transact ?call w) = w" if "\<exists>err. ?call w = Inl err"
    using that by (auto simp: transact_def)
  assume bad: "i < length paymentIds \<and> i < length payees \<and> i < length amounts
      \<and> failsValidation e tok (fst w) (paymentIds ! i, payees ! i, amounts ! i, referenceHashes ! i)"
  show fails: "\<exists>err. ?call w = Inl err"
  proof (cases "length paymentIds = length payees \<and> length payees = length amounts
      \<and> length amounts = length referenceHashes")
    case False
    then show ?thesis by (auto simp: processBatchPayment_def Let_def)
  next
    case True
    with bad have "?items ! i = (paymentIds ! i, payees ! i, amounts ! i, referenceHashes ! i)"
      and "i < length ?items"
      by simp_all
    then have "(paymentIds ! i, payees ! i, amounts ! i, referenceHashes ! i) \<in> set ?items"
      by (metis nth_mem)
    from validateLoop_invalid [OF this, of e tok "fst w" c 0 0] bad
    obtain err where "validateLoop e c tok ?items (fst w, 0, 0) = Inl err" by blast
    then show ?thesis by (auto simp: processBatchPayment_def Let_def)
  qed
  then show "fst (transact ?call w) = w" by (auto simp: transact_def)
next
  let ?bps = "platformFeePercentage (fst w)"
  let ?items = "zip paymentIds (zip payees (zip amounts referenceHashes))"
  assume ok: "processBatchPayment e c paymentIds payees tok amounts referenceHashes w = Inr w'"
  from processBatchPayment_success [OF ok] obtain s1 total fees l1 s2 l2
    where len: "length paymentIds = length payees" "length payees = length amounts"
        "length amounts = length referenceHashes"
      and v: "validateLoop e c tok ?items (fst w, 0, 0) = Inr (s1, total, fees)"
      and pull: "erc20_transferFrom (snd w) tok (this_address c) (msg_sender c) (this_address c) total
               = Inr l1"
      and d: "distributeLoop c tok ?items (s1, l1) = Inr (s2, l2)"
      and f: "if 0 < fees
              then erc20_transfer l2 tok (this_address c) (feeCollector s2) fees = Inr (snd w')
              else snd w' = l2"
    by blast
  from validateLoop_result [OF v]
  have bps: "platformFeePercentage s1 = ?bps" and col: "feeCollector s1 = feeCollector (fst w)"
    and total: "unat total = sum_list (map (\<lambda>(i, p, a, r). unat a) ?items)"
    and fees: "unat fees = sum_list (map (\<lambda>(i, p, a, r). unat a * unat ?bps div 10000) ?items)"
    by simp_all
  from total have total': "unat total = sum_list (map unat amounts)"
    by (simp add: items_amounts [OF len])
  from fees have fees': "unat fees = sum_list (map (\<lambda>a. unat a * unat ?bps div 10000) amounts)"
    by (simp add: items_amounts [OF len])
  from pull have e1: "token_events l1
      = token_events (snd w) @ [Transfer tok (msg_sender c) (this_address c) total]"
    by (rule erc20_transferFrom_events)
  from distributeLoop_result [OF d] bps col
  have e2: "token_events l2 = token_events l1
       @ map (\<lambda>(p, a). Transfer tok (this_address c) p (a - (a * ?bps) div 10000))
           (zip payees amounts)"
    and col2: "feeCollector s2 = feeCollector (fst w)"
    by (simp_all add: items_transfers [OF len])
  have e3: "token_events (snd w') = token_events l2
      @ (if 0 < fees then [Transfer tok (this_address c) (feeCollector (fst w)) fees] else [])"
  proof (cases "0 < fees")
    case True
    with f col2 show ?thesis by (simp add: erc20_transfer_events)
  next
    case False
    with f show ?thesis by simp
  qed
  from total' fees' e1 e2 e3
  show "\<exists>total fees.
            unat total = sum_list (map unat amounts)
          \<and> unat fees = sum_list (map (\<lambda>a. unat a * unat ?bps div 10000) amounts)
          \<and> token_events (snd w') = token_events (snd w)
              @ [Transfer tok (msg_sender c) (this_address c) total]
              @ map (\<lambda>(p, a). Transfer tok (this_address c) p (a - (a * ?bps) div 10000))
                  (zip payees amounts)
              @ (if 0 < fees then [Transfer tok (this_address c) (feeCollector (fst w)) fees]
                 else [])"
    by auto
qed


lemma example_fingerprints_differ:
  "keccak256 example_env (encodePacked [B32 102, Addr 6, Addr 20, U256 2000000])
     \<noteq> keccak256 example_env (encodePacked [B32 101, Addr 4, Addr 20, U256 1000000])"
  by (simp add: example_env_def example_hash_def encodePacked_def be_bytes_def upt_rec)

lemma batch_example:
  "\<exists>s' l'. processBatchPayment example_env deployer [101, 102] [4, 6] 20 [1000000, 2000000] [1, 2]
       (processor1, ledger1) = Inr (s', l')
     \<and> balanceOf l' 20 4 = 975000 \<and> balanceOf l' 20 6 = 1950000 \<and> balanceOf l' 20 5 = 75000
     \<and> balanceOf l' 20 50 = 0 \<and> balanceOf l' 20 1 = 997000000"
  using example_fingerprints_differ
  by (simp add: processBatchPayment_def Let_def processor1_values zero_PaymentRecord_def
      deployer_def erc20_transferFrom_def erc20_transfer_def erc20_move_def ledger1_values
      ledger1_def)

lemma processBatchPayment_examples:
  "failsValidation example_env 20 processor1 (102, 0, 2000000, 2)
   \<and> isl (processBatchPayment example_env deployer [101, 102] [4, 0] 20 [1000000, 2000000] [1, 2]
        (processor1, ledger1))
   \<and> fst (transact
        (processBatchPayment example_env deployer [101, 102] [4, 0] 20 [1000000, 2000000] [1, 2])
        (processor1, ledger1)) = (processor1, ledger1)
   \<and> \<not> isl (processBatchPayment example_env deployer [101, 102] [4, 6] 20 [1000000, 2000000] [1, 2]
        (processor1, ledger1))
   \<and> token_events (snd (projr
        (processBatchPayment example_env deployer [101, 102] [4, 6] 20 [1000000, 2000000] [1, 2]
           (processor1, ledger1))))
       = [Transfer 20 1 50 3000000, Transfer 20 50 4 975000, Transfer 20 50 6 1950000,
          Transfer 20 50 5 75000]"
proof -
  have bad: "failsValidation example_env 20 processor1 (102, 0, 2000000, 2)"
    by (simp add: failsValidation_def)
  from processBatchPayment_all_or_nothing
         [of 1 "[101, 102]" "[4, 0]" "[1000000, 2000000]" example_env 20 "(processor1, ledger1)"
            "[1, 2]" deployer] bad
  have fails: "\<exists>err. processBatchPayment example_env deployer [101, 102] [4, 0] 20
          [1000000, 2000000] [1, 2] (processor1, ledger1) = Inl err"
    and same: "fst (transact
        (processBatchPayment example_env deployer [101, 102] [4, 0] 20 [1000000, 2000000] [1, 2])
        (processor1, ledger1)) = (processor1, ledger1)"
    by simp_all
  from batch_example obtain s' l'
    where ok: "processBatchPayment example_env deployer [101, 102] [4, 6] 20 [1000000, 2000000]
        [1, 2] (processor1, ledger1) = Inr (s', l')"
    by blast
  from processBatchPayment_all_or_nothing
         [of 0 "[101, 102]" "[4, 6]" "[1000000, 2000000]" example_env 20 "(processor1, ledger1)"
            "[1, 2]" deployer "(s', l')"] ok
  obtain total fees
    where t: "unat total = 3000000" and f: "unat fees = 75000"
      and ev: "token_events l' = [Transfer 20 1 50 total,
          Transfer 20 50 4 975000, Transfer 20 50 6 1950000]
          @ (if 0 < fees then [Transfer 20 50 5 fees] else [])"
    by (auto simp: processor1_values ledger1_values deployer_def)
  have "total = of_nat (unat total)" "fees = of_nat (unat fees)" by simp_all
  with t f have "total = 3000000" "fees = 75000" by simp_all
  with ev have "token_events l' = [Transfer 20 1 50 3000000, Transfer 20 50 4 975000,
      Transfer 20 50 6 1950000, Transfer 20 50 5 75000]"
    by simp
  with bad fails same ok show ?thesis by auto
qed


lemma processPayment_used_id:
  assumes "paymentId (payments (fst w) pid) \<noteq> 0"
  shows "\<exists>err. processPayment e c pid p t a r sig w = Inl err"
    and "p \<noteq> 0 \<Longrightarrow> t \<noteq> 0 \<Longrightarrow> a \<noteq> 0
         \<Longrightarrow> processPayment e c pid p t a r sig w = Inl (Revert ''Payment ID already used'')"
  using assms by (auto simp: processPayment_def Let_def word_greater_zero_iff)

lemma processPayment_argument_checks:
  "p = 0 \<Longrightarrow> processPayment e c pid p t a r sig w = Inl (Revert ''Invalid payee'')"
  "p \<noteq> 0 \<Longrightarrow> t = 0 \<Longrightarrow> processPayment e c pid p t a r sig w = Inl (Revert ''Invalid token'')"
  "p \<noteq> 0 \<Longrightarrow> t \<noteq> 0 \<Longrightarrow> a = 0
     \<Longrightarrow> processPayment e c pid p t a r sig w = Inl (Revert ''Amount must be greater than 0'')"
  by (simp_all add: processPayment_def Let_def)

lemma argument_errors_are_validation_errors:
  "kind_of (Revert ''Invalid payee'') = ValidationError"
  "kind_of (Revert ''Invalid token'') = ValidationError"
  "kind_of (Revert ''Amount must be greater than 0'') = ValidationError"
  by (simp_all add: validation_reasons_def)

lemma processorCall_keeps_record:
  assumes "paymentId (payments (fst w) k) \<noteq> 0"
  shows "payments (fst (fst (transact (processorCall e c call) w))) k = payments (fst w) k"
proof (cases "processorCall e c call w")
  case (Inl err)
  then show ?thesis by (simp add: transact_def)
next
  case (Inr w')
  have "payments (fst w') k = payments (fst w) k"
  proof (cases call)
    case (ProcessPayment i p t a r sig)
    with Inr have ok: "processPayment e c i p t a r sig w = Inr w'" by simp
    from processPayment_success(4) [OF ok] assms have "i \<noteq> k" by auto
    then show ?thesis by (simp add: processPayment_success(9) [OF ok])
  next
    case (ProcessBatchPayment ids ps t as rs)
    with Inr have ok: "processBatchPayment e c ids ps t as rs w = Inr w'" by simp
    from processBatchPayment_success [OF ok] obtain s1 total fees l1 l2
      where v: "validateLoop e c t (zip ids (zip ps (zip as rs))) (fst w, 0, 0)
                  = Inr (s1, total, fees)"
        and d: "distributeLoop c t (zip ids (zip ps (zip as rs))) (s1, l1) = Inr (fst w', l2)"
      by auto
    from validateLoop_result [OF v] assms have "payments s1 k = payments (fst w) k" by blast
    with distributeLoop_result [OF d] show ?thesis by simp
  next
    case (UpdatePlatformFee f)
    with Inr show ?thesis
      by (auto simp: updatePlatformFee_def split: sum.splits if_splits)
  next
    case (UpdateFeeCollector a)
    with Inr show ?thesis
      by (auto simp: updateFeeCollector_def split: sum.splits if_splits)
  next
    case (SetTokenRegistry a)
    with Inr show ?thesis
      by (auto simp: setTokenRegistry_def split: sum.splits if_splits)
  qed
  with Inr show ?thesis by (simp add: transact_def)
qed

lemma processorCalls_keep_record:
  "paymentId (payments (fst w) k) \<noteq> 0
     \<Longrightarrow> payments (fst (processorCalls e calls w)) k = payments (fst w) k"
proof (induction calls arbitrary: w)
  case Nil
  then show ?case by simp
next
  case (Cons x calls)
  obtain c call where x: "x = (c, call)" by (cases x)
  let ?w1 = "fst (transact (processorCall e c call) w)"
  from Cons.prems have step: "payments (fst ?w1) k = payments (fst w) k"
    by (rule processorCall_keeps_record)
  with Cons.prems have "paymentId (payments (fst ?w1) k) \<noteq> 0" by simp
  from Cons.IH [OF this] step x show ?case by simp
qed

text \<open>
  Claim C1, amended. Once \<open>processPayment\<close> has accepted a payment under a nonzero
  identifier, the record stored under it stays as written through every later sequence
  of calls to the processor's entry points (\<open>processPayment\<close>, \<open>processBatchPayment\<close>,
  the fee and registry setters), and every later \<open>processPayment\<close> with that identifier
  fails, whatever its other arguments, its caller and its signature, leaving the state
  as it was. The failure is "Payment ID already used", a state conflict, whenever the
  payee and token of the later call are not null and its amount is positive. Otherwise
  it is the validation error of the argument check that comes first: "Invalid payee"
  for a null payee, else "Invalid token" for a null token, else "Amount must be greater
  than 0" for a zero amount.
\<close>

theorem C1_payment_id_accepted_once:
  assumes "processPayment e c pid p t a r sig w = Inr w1" and "pid \<noteq> 0"
  shows "payments (fst w1) pid =
           \<lparr>paymentId = pid, payer = msg_sender c, payee = p, tokenAddress = t, amount = a,
            feeAmount = (a * platformFeePercentage (fst w)) div 10000,
            timestamp = block_timestamp c, referenceHash = r\<rparr>
       \<and> payments (fst (processorCalls e calls w1)) pid = payments (fst w1) pid
       \<and> (\<exists>err. processPayment e c2 pid p2 t2 a2 r2 sig2 (processorCalls e calls w1) = Inl err)
       \<and> (p2 \<noteq> 0 \<and> t2 \<noteq> 0 \<and> a2 \<noteq> 0 \<longrightarrow>
            processPayment e c2 pid p2 t2 a2 r2 sig2 (processorCalls e calls w1)
              = Inl (Revert ''Payment ID already used''))
       \<and> kind_of (Revert ''Payment ID already used'') = StateConflictError
       \<and> (p2 = 0 \<longrightarrow>
            processPayment e c2 pid p2 t2 a2 r2 sig2 (processorCalls e calls w1)
              = Inl (Revert ''Invalid payee''))
       \<and> (p2 \<noteq> 0 \<and> t2 = 0 \<longrightarrow>
            processPayment e c2 pid p2 t2 a2 r2 sig2 (processorCalls e calls w1)
              = Inl (Revert ''Invalid token''))
       \<and> (p2 \<noteq> 0 \<and> t2 \<noteq> 0 \<and> a2 = 0 \<longrightarrow>
            processPayment e c2 pid p2 t2 a2 r2 sig2 (processorCalls e calls w1)
              = Inl (Revert ''Amount must be greater than 0''))
       \<and> kind_of (Revert ''Invalid payee'') = ValidationError
       \<and> kind_of (Revert ''Invalid token'') = ValidationError
       \<and> kind_of (Revert ''Amount must be greater than 0'') = ValidationError
       \<and> (p2 = 0 \<or> t2 = 0 \<or> a2 = 0 \<longrightarrow>
            (\<exists>err. processPayment e c2 pid p2 t2 a2 r2 sig2 (processorCalls e calls w1) = Inl err
                \<and> kind_of err = ValidationError))
       \<and> fst (transact (processPayment e c2 pid p2 t2 a2 r2 sig2) (processorCalls e calls w1))
           = processorCalls e calls w1"
proof -
  let ?w2 = "processorCalls e calls w1"
  let ?again = "processPayment e c2 pid p2 t2 a2 r2 sig2 ?w2"
  have rec: "payments (fst w1) pid =
           \<lparr>paymentId = pid, payer = msg_sender c, payee = p, tokenAddress = t, amount = a,
            feeAmount = (a * platformFeePercentage (fst w)) div 10000,
            timestamp = block_timestamp c, referenceHash = r\<rparr>"
    by (simp add: processPayment_success(9) [OF assms(1)])
  with assms(2) have used: "paymentId (payments (fst w1) pid) \<noteq> 0" by simp
  then have keep: "payments (fst ?w2) pid = payments (fst w1) pid"
    by (rule processorCalls_keep_record)
  with used have used2: "paymentId (payments (fst ?w2) pid) \<noteq> 0" by simp
  note again = processPayment_used_id [OF used2]
  have kind: "kind_of (Revert ''Payment ID already used'') = StateConflictError"
    by (simp add: validation_reasons_def authorization_reasons_def conflict_reasons_def)
  note args = processPayment_argument_checks
    [where p = p2 and e = e and c = c2 and pid = pid and t = t2 and a = a2 and r = r2
       and sig = sig2 and w = ?w2]
  note kinds = argument_errors_are_validation_errors
  have invalid: "\<exists>err. ?again = Inl err \<and> kind_of err = ValidationError"
    if "p2 = 0 \<or> t2 = 0 \<or> a2 = 0"
  proof (cases "p2 = 0")
    case True
    with args(1) kinds(1) show ?thesis by simp
  next
    case p: False
    show ?thesis
    proof (cases "t2 = 0")
      case True
      with p args(2) kinds(2) show ?thesis by simp
    next
      case False
      with p that have "a2 = 0" by simp
      with p False args(3) kinds(3) show ?thesis by simp
    qed
  qed
  from again(1) [of e c2 p2 t2 a2 r2 sig2]
  have tx: "fst (transact (processPayment e c2 pid p2 t2 a2 r2 sig2) ?w2) = ?w2"
    by (auto simp: transact_def)
  have c1: "\<exists>err. ?again = Inl err" by (rule again(1))
  have c2: "p2 \<noteq> 0 \<and> t2 \<noteq> 0 \<and> a2 \<noteq> 0 \<longrightarrow> ?again = Inl (Revert ''Payment ID already used'')"
    using again(2) by blast
  have c3: "p2 = 0 \<longrightarrow> ?again = Inl (Revert ''Invalid payee'')"
    using args(1) by blast
  have c4: "p2 \<noteq> 0 \<and> t2 = 0 \<longrightarrow> ?again = Inl (Revert ''Invalid token'')"
    using args(2) by blast
  have c5: "p2 \<noteq> 0 \<and> t2 \<noteq> 0 \<and> a2 = 0
      \<longrightarrow> ?again = Inl (Revert ''Amount must be greater than 0'')"
    using args(3) by blast
  have c6: "p2 = 0 \<or> t2 = 0 \<or> a2 = 0
      \<longrightarrow> (\<exists>err. ?again = Inl err \<and> kind_of err = ValidationError)"
    using invalid by blast
  show ?thesis
    by (intro conjI) (fact rec keep c1 c2 kind c3 c4 c5 kinds c6 tx)+
qed

lemma deployer_values:
  "msg_sender deployer = 1" "block_timestamp deployer = 1000" "this_address deployer = 50"
  "msg_sender payer3 = 3" "block_timestamp payer3 = 1000" "this_address payer3 = 50"
  by (simp_all add: deployer_def payer3_def)

lemma paid_p1_accepted: "processPayment example_env deployer 28721 4 20 100000000 99 []
    (processor1, ledger1) = Inr paid_p1"
  using payment_p1 by (auto simp: paid_p1_def)

lemma zero_fingerprints_differ:
  "keccak256 example_env (encodePacked [B32 0, Addr 4, Addr 20, U256 20000])
     \<noteq> keccak256 example_env (encodePacked [B32 0, Addr 4, Addr 20, U256 10000])"
  by (simp add: example_env_def example_hash_def encodePacked_def be_bytes_def upt_rec)

lemma payment_zero1:
  "\<exists>s l. processPayment example_env deployer 0 4 20 10000 99 [] (processor1, ledger1) = Inr (s, l)
     \<and> allowance l 20 1 50 = 999990000 \<and> balanceOf l 20 1 = 999990000
     \<and> balanceOf l 20 4 = 9750 \<and> balanceOf l 20 5 = 250 \<and> balanceOf l 20 50 = 0"
  by (simp add: processPayment_def Let_def processor1_values zero_PaymentRecord_def
      checkSignature_def deployer_values erc20_transferFrom_def erc20_move_def ledger1_values)
     (simp add: ledger1_def)

lemma paid_zero1_accepted: "processPayment example_env deployer 0 4 20 10000 99 []
    (processor1, ledger1) = Inr paid_zero1"
  using payment_zero1 by (auto simp: paid_zero1_def)

lemma paid_zero1_values:
  "fst paid_zero1 = processor1\<lparr>
     processedPayments := (processedPayments processor1)
       (keccak256 example_env (encodePacked [B32 0, Addr 4, Addr 20, U256 10000]) := True),
     payments := (payments processor1)(0 :=
       \<lparr>paymentId = 0, payer = 1, payee = 4, tokenAddress = 20, amount = 10000,
        feeAmount = 250, timestamp = 1000, referenceHash = 99\<rparr>),
     pp_events := [PaymentProcessed 0 1 4 20 10000 250 99]\<rparr>"
  "allowance (snd paid_zero1) 20 1 50 = 999990000"
  "balanceOf (snd paid_zero1) 20 1 = 999990000"
  "balanceOf (snd paid_zero1) 20 4 = 9750"
  "balanceOf (snd paid_zero1) 20 5 = 250"
  "balanceOf (snd paid_zero1) 20 50 = 0"
proof -
  from processPayment_success(9) [OF paid_zero1_accepted]
  show "fst paid_zero1 = processor1\<lparr>
     processedPayments := (processedPayments processor1)
       (keccak256 example_env (encodePacked [B32 0, Addr 4, Addr 20, U256 10000]) := True),
     payments := (payments processor1)(0 :=
       \<lparr>paymentId = 0, payer = 1, payee = 4, tokenAddress = 20, amount = 10000,
        feeAmount = 250, timestamp = 1000, referenceHash = 99\<rparr>),
     pp_events := [PaymentProcessed 0 1 4 20 10000 250 99]\<rparr>"
    by (simp add: deployer_values processor1_values) (simp add: processor1_def)
  from payment_zero1 obtain s l
    where "processPayment example_env deployer 0 4 20 10000 99 [] (processor1, ledger1) = Inr (s, l)"
      and l: "allowance l 20 1 50 = 999990000" "balanceOf l 20 1 = 999990000"
        "balanceOf l 20 4 = 9750" "balanceOf l 20 5 = 250" "balanceOf l 20 50 = 0"
    by blast
  with paid_zero1_accepted have "(s, l) = paid_zero1" by simp
  then have "snd paid_zero1 = l" by (metis snd_conv)
  with l show "allowance (snd paid_zero1) 20 1 50 = 999990000"
    "balanceOf (snd paid_zero1) 20 1 = 999990000"
    "balanceOf (snd paid_zero1) 20 4 = 9750"
    "balanceOf (snd paid_zero1) 20 5 = 250"
    "balanceOf (snd paid_zero1) 20 50 = 0"
    by simp_all
qed

lemma payment_zero2:
  "\<exists>w. processPayment example_env deployer 0 4 20 20000 99 [] paid_zero1 = Inr w"
  using zero_fingerprints_differ
  by (simp add: processPayment_def Let_def paid_zero1_values processor1_values
      checkSignature_def deployer_values erc20_transferFrom_def erc20_move_def)

lemma paid_zero2_accepted: "processPayment example_env deployer 0 4 20 20000 99 [] paid_zero1
    = Inr paid_zero2"
  using payment_zero2 by (auto simp: paid_zero2_def)

text \<open>
  Claim C1, as stated, fails in two ways. The argument checks come before the identifier
  check, so a second call under identifier 28721 with a null payee fails with "Invalid
  payee", a validation error and not a state conflict. And a record stored under the
  identifier zero reads as absent: after a payment of 10000 under identifier zero, a
  second one of 20000 under the same identifier is accepted and overwrites the record.
\<close>

theorem C1_counterexample:
  "processPayment example_env deployer 28721 4 20 100000000 99 [] (processor1, ledger1)
     = Inr paid_p1
   \<and> processPayment example_env deployer 28721 0 20 100000000 99 [] paid_p1
     = Inl (Revert ''Invalid payee'')
   \<and> kind_of (Revert ''Invalid payee'') = ValidationError
   \<and> processPayment example_env deployer 0 4 20 10000 99 [] (processor1, ledger1)
     = Inr paid_zero1
   \<and> processPayment example_env deployer 0 4 20 20000 99 [] paid_zero1 = Inr paid_zero2
   \<and> amount (payments (fst paid_zero1) 0) = 10000
   \<and> amount (payments (fst paid_zero2) 0) = 20000"
proof -
  have invalid: "processPayment example_env deployer 28721 0 20 100000000 99 [] paid_p1
     = Inl (Revert ''Invalid payee'')"
    by (simp add: processPayment_def Let_def)
  have kind: "kind_of (Revert ''Invalid payee'') = ValidationError"
    by (simp add: validation_reasons_def)
  have a1: "amount (payments (fst paid_zero1) 0) = 10000"
    by (simp add: processPayment_success(9) [OF paid_zero1_accepted])
  have a2: "amount (payments (fst paid_zero2) 0) = 20000"
    by (simp add: processPayment_success(9) [OF paid_zero2_accepted])
  from paid_p1_accepted invalid kind paid_zero1_accepted paid_zero2_accepted a1 a2
  show ?thesis by simp
qed

theorem C1_witness:
  "processPayment example_env deployer 28721 4 20 100000000 99 [] (processor1, ledger1)
     = Inr paid_p1
   \<and> processPayment example_env payer3 28721 6 20 5 1 [7]
       (processorCalls example_env
          [(deployer, UpdatePlatformFee 100),
           (deployer, ProcessBatchPayment [28721, 102] [4, 6] 20 [1000000, 2000000] [1, 2]),
           (deployer, ProcessPayment 103 4 20 1000000 3 [])] paid_p1)
     = Inl (Revert ''Payment ID already used'')
   \<and> amount (payments (fst (processorCalls example_env
          [(deployer, UpdatePlatformFee 100),
           (deployer, ProcessBatchPayment [28721, 102] [4, 6] 20 [1000000, 2000000] [1, 2]),
           (deployer, ProcessPayment 103 4 20 1000000 3 [])] paid_p1)) 28721) = 100000000
   \<and> feeAmount (payments (fst paid_p1) 28721) = 2500000
   \<and> processPayment example_env deployer 28721 4 20 100000000 99 [] paid_p1
     = Inl (Revert ''Payment ID already used'')
   \<and> processPayment example_env deployer 28721 0 20 100000000 99 [] paid_p1
     = Inl (Revert ''Invalid payee'')
   \<and> processPayment example_env deployer 28721 4 0 100000000 99 [] paid_p1
     = Inl (Revert ''Invalid token'')
   \<and> processPayment example_env deployer 28721 4 20 0 99 [] paid_p1
     = Inl (Revert ''Amount must be greater than 0'')
   \<and> (\<exists>err. processPayment example_env deployer 28721 4 20 0 99 [] paid_p1 = Inl err
          \<and> kind_of err = ValidationError)"
proof -
  note later = C1_payment_id_accepted_once [OF paid_p1_accepted, where
          calls = "[(deployer, UpdatePlatformFee 100),
            (deployer, ProcessBatchPayment [28721, 102] [4, 6] 20 [1000000, 2000000] [1, 2]),
            (deployer, ProcessPayment 103 4 20 1000000 3 [])]"
          and ?c2.0 = payer3 and ?p2.0 = 6 and ?t2.0 = 20 and ?a2.0 = 5 and ?r2.0 = 1
          and ?sig2.0 = "[7]"]
  note same = C1_payment_id_accepted_once [OF paid_p1_accepted, where calls = "[]"
          and ?c2.0 = deployer and ?p2.0 = 4 and ?t2.0 = 20 and ?a2.0 = 100000000
          and ?r2.0 = 99 and ?sig2.0 = "[]"]
  note payee0 = C1_payment_id_accepted_once [OF paid_p1_accepted, where calls = "[]"
          and ?c2.0 = deployer and ?p2.0 = 0 and ?t2.0 = 20 and ?a2.0 = 100000000
          and ?r2.0 = 99 and ?sig2.0 = "[]"]
  note token0 = C1_payment_id_accepted_once [OF paid_p1_accepted, where calls = "[]"
          and ?c2.0 = deployer and ?p2.0 = 4 and ?t2.0 = 0 and ?a2.0 = 100000000
          and ?r2.0 = 99 and ?sig2.0 = "[]"]
  note amount0 = C1_payment_id_accepted_once [OF paid_p1_accepted, where calls = "[]"
          and ?c2.0 = deployer and ?p2.0 = 4 and ?t2.0 = 20 and ?a2.0 = 0
          and ?r2.0 = 99 and ?sig2.0 = "[]"]
  have a: "processPayment example_env payer3 28721 6 20 5 1 [7]
       (processorCalls example_env
          [(deployer, UpdatePlatformFee 100),
           (deployer, ProcessBatchPayment [28721, 102] [4, 6] 20 [1000000, 2000000] [1, 2]),
           (deployer, ProcessPayment 103 4 20 1000000 3 [])] paid_p1)
     = Inl (Revert ''Payment ID already used'')"
    and b: "amount (payments (fst (processorCalls example_env
          [(deployer, UpdatePlatformFee 100),
           (deployer, ProcessBatchPayment [28721, 102] [4, 6] 20 [1000000, 2000000] [1, 2]),
           (deployer, ProcessPayment 103 4 20 1000000 3 [])] paid_p1)) 28721) = 100000000"
    and f: "feeAmount (payments (fst paid_p1) 28721) = 2500000"
    using later by (simp_all add: processor1_values)
  have s: "processPayment example_env deployer 28721 4 20 100000000 99 [] paid_p1
     = Inl (Revert ''Payment ID already used'')"
    using same by simp
  have p0: "processPayment example_env deployer 28721 0 20 100000000 99 [] paid_p1
     = Inl (Revert ''Invalid payee'')"
    using payee0 by simp
  have t0: "processPayment example_env deployer 28721 4 0 100000000 99 [] paid_p1
     = Inl (Revert ''Invalid token'')"
    using token0 by simp
  have a0: "processPayment example_env deployer 28721 4 20 0 99 [] paid_p1
     = Inl (Revert ''Amount must be greater than 0'')"
    and k: "\<exists>err. processPayment example_env deployer 28721 4 20 0 99 [] paid_p1 = Inl err
          \<and> kind_of err = ValidationError"
    using amount0 by simp_all
  from paid_p1_accepted a b f s p0 t0 a0 k show ?thesis by blast
qed

lemma batch_zero_example:
  "\<exists>s l. processBatchPayment example_env deployer [0] [4] 20 [20000] [98] paid_zero1 = Inr (s, l)
     \<and> payments s 0 =
         \<lparr>paymentId = 0, payer = 1, payee = 4, tokenAddress = 20, amount = 20000,
          feeAmount = 500, timestamp = 1000, referenceHash = 98\<rparr>
     \<and> balanceOf l 20 4 = 29250 \<and> balanceOf l 20 5 = 750 \<and> balanceOf l 20 1 = 999970000"
  using zero_fingerprints_differ
  by (simp add: processBatchPayment_def Let_def paid_zero1_values processor1_values
      deployer_values erc20_transferFrom_def erc20_transfer_def erc20_move_def)

lemma paid_p1_record:
  "fst paid_p1 = processor1\<lparr>
     processedPayments := (processedPayments processor1)
       (keccak256 example_env (encodePacked [B32 28721, Addr 4, Addr 20, U256 100000000]) := True),
     payments := (payments processor1)(28721 :=
       \<lparr>paymentId = 28721, payer = 1, payee = 4, tokenAddress = 20, amount = 100000000,
        feeAmount = 2500000, timestamp = 1000, referenceHash = 99\<rparr>),
     pp_events := [PaymentProcessed 28721 1 4 20 100000000 2500000 99]\<rparr>"
  using processPayment_success(9) [OF paid_p1_accepted]
  by (simp add: deployer_values processor1_values) (simp add: processor1_def)

text \<open>
  Claim C4 says that a batch with an item whose identifier is already used creates no
  record and changes no balance. The code does not do that for the identifier zero. The
  deployer pays 10000 units to the payee (4) under identifier zero: the record is
  stored and the payee holds 9750. The deployer then sends a batch of one item that
  uses identifier zero again, for 20000 units: \<open>processBatchPayment\<close> accepts it,
  overwrites the record stored under zero and pays again, so that the payee holds 29250
  and the collector 750. The test for a used identifier is that the stored record's
  identifier is not zero, which a record stored under zero never passes. Under the
  nonzero identifier 28721 the same reuse is rejected with "Payment ID already used".
\<close>

theorem C4_reused_identifier_zero_accepted:
  "processPayment example_env deployer 0 4 20 10000 99 [] (processor1, ledger1) = Inr paid_zero1
   \<and> payments (fst paid_zero1) 0 =
       \<lparr>paymentId = 0, payer = 1, payee = 4, tokenAddress = 20, amount = 10000,
        feeAmount = 250, timestamp = 1000, referenceHash = 99\<rparr>
   \<and> balanceOf (snd paid_zero1) 20 4 = 9750
   \<and> balanceOf (snd paid_zero1) 20 5 = 250
   \<and> processBatchPayment example_env deployer [0] [4] 20 [20000] [98] paid_zero1
       = Inr batch_zero
   \<and> payments (fst batch_zero) 0 =
       \<lparr>paymentId = 0, payer = 1, payee = 4, tokenAddress = 20, amount = 20000,
        feeAmount = 500, timestamp = 1000, referenceHash = 98\<rparr>
   \<and> balanceOf (snd batch_zero) 20 4 = 29250
   \<and> balanceOf (snd batch_zero) 20 5 = 750
   \<and> processPayment example_env deployer 28721 4 20 100000000 99 [] (processor1, ledger1)
       = Inr paid_p1
   \<and> processBatchPayment example_env deployer [28721] [4] 20 [20000] [98] paid_p1
       = Inl (Revert ''Payment ID already used'')"
proof -
  have first: "payments (fst paid_zero1) 0 =
       \<lparr>paymentId = 0, payer = 1, payee = 4, tokenAddress = 20, amount = 10000,
        feeAmount = 250, timestamp = 1000, referenceHash = 99\<rparr>"
    by (simp add: paid_zero1_values(1))
  from batch_zero_example obtain s l
    where ok: "processBatchPayment example_env deployer [0] [4] 20 [20000] [98] paid_zero1
        = Inr (s, l)"
      and rec: "payments s 0 =
         \<lparr>paymentId = 0, payer = 1, payee = 4, tokenAddress = 20, amount = 20000,
          feeAmount = 500, timestamp = 1000, referenceHash = 98\<rparr>"
      and bal: "balanceOf l 20 4 = 29250" "balanceOf l 20 5 = 750"
    by blast
  from ok have bz: "processBatchPayment example_env deployer [0] [4] 20 [20000] [98] paid_zero1
        = Inr batch_zero"
    and parts: "fst batch_zero = s" "snd batch_zero = l"
    by (simp_all add: batch_zero_def)
  from parts rec bal have second: "payments (fst batch_zero) 0 =
       \<lparr>paymentId = 0, payer = 1, payee = 4, tokenAddress = 20, amount = 20000,
        feeAmount = 500, timestamp = 1000, referenceHash = 98\<rparr>"
    "balanceOf (snd batch_zero) 20 4 = 29250" "balanceOf (snd batch_zero) 20 5 = 750"
    by simp_all
  have rejected: "processBatchPayment example_env deployer [28721] [4] 20 [20000] [98] paid_p1
     = Inl (Revert ''Payment ID already used'')"
    by (simp add: processBatchPayment_def Let_def paid_p1_record processor1_values
        deployer_values)
  from paid_zero1_accepted first paid_zero1_values(4,5) bz second paid_p1_accepted rejected
  show ?thesis by simp
qed

text \<open>
  Claim C5. For a caller that holds the payment-manager role \<open>processPayment\<close> does the
  same whatever the signature and whatever signature recovery would return: nothing is
  checked. For any other caller the message hash is the hash of the packed
  \<open>(paymentId, payee, token, amount, referenceHash)\<close>, the signer is recovered from its
  EIP-191 prefixed hash and the signature, and the call succeeds only if that signer
  holds the payment-manager role; when recovery fails or the signer lacks the role, a
  call that passed the argument and replay checks fails with an authorization error.
\<close>

theorem C5_processPayment_authorization:
  "(hasRole (pp_roles (fst w)) PAYMENT_MANAGER_ROLE (msg_sender c)
      \<longrightarrow> processPayment e c pid p t a r sig w
          = processPayment (e\<lparr>ECDSA_recover := recover'\<rparr>) c pid p t a r sig' w)
   \<and> (\<not> hasRole (pp_roles (fst w)) PAYMENT_MANAGER_ROLE (msg_sender c)
        \<and> processPayment e c pid p t a r sig w = Inr w'
      \<longrightarrow> (\<exists>signer.
            ECDSA_recover e
              (keccak256 e (encodePacked [Str eip191_prefix,
                 B32 (keccak256 e (encodePacked [B32 pid, Addr p, Addr t, U256 a, B32 r]))]))
              sig = Some signer
          \<and> hasRole (pp_roles (fst w)) PAYMENT_MANAGER_ROLE signer))
   \<and> (\<not> hasRole (pp_roles (fst w)) PAYMENT_MANAGER_ROLE (msg_sender c)
        \<and> p \<noteq> 0 \<and> t \<noteq> 0 \<and> a \<noteq> 0 \<and> paymentId (payments (fst w) pid) = 0
        \<and> \<not> processedPayments (fst w)
              (keccak256 e (encodePacked [B32 pid, Addr p, Addr t, U256 a]))
        \<and> (\<forall>signer.
              ECDSA_recover e
                (keccak256 e (encodePacked [Str eip191_prefix,
                   B32 (keccak256 e (encodePacked [B32 pid, Addr p, Addr t, U256 a, B32 r]))]))
                sig = Some signer
              \<longrightarrow> \<not> hasRole (pp_roles (fst w)) PAYMENT_MANAGER_ROLE signer)
      \<longrightarrow> (\<exists>err. processPayment e c pid p t a r sig w = Inl err
             \<and> kind_of err = AuthorizationError))"
proof (intro conjI impI)
  assume "hasRole (pp_roles (fst w)) PAYMENT_MANAGER_ROLE (msg_sender c)"
  then have "checkSignature e c (fst w) pid p t a r sig = None"
    and "checkSignature (e\<lparr>ECDSA_recover := recover'\<rparr>) c (fst w) pid p t a r sig' = None"
    by (simp_all add: checkSignature_def)
  then show "processPayment e c pid p t a r sig w
      = processPayment (e\<lparr>ECDSA_recover := recover'\<rparr>) c pid p t a r sig' w"
    by (simp add: processPayment_def Let_def)
next
  assume "\<not> hasRole (pp_roles (fst w)) PAYMENT_MANAGER_ROLE (msg_sender c)
        \<and> processPayment e c pid p t a r sig w = Inr w'"
  then have no: "\<not> hasRole (pp_roles (fst w)) PAYMENT_MANAGER_ROLE (msg_sender c)"
    and ok: "processPayment e c pid p t a r sig w = Inr w'"
    by simp_all
  from processPayment_success(6) [OF ok] no
  show "\<exists>signer.
            ECDSA_recover e
              (keccak256 e (encodePacked [Str eip191_prefix,
                 B32 (keccak256 e (encodePacked [B32 pid, Addr p, Addr t, U256 a, B32 r]))]))
              sig = Some signer
          \<and> hasRole (pp_roles (fst w)) PAYMENT_MANAGER_ROLE signer"
    by (auto simp: checkSignature_def Let_def split: option.splits if_splits)
next
  let ?h = "keccak256 e (encodePacked [Str eip191_prefix,
                 B32 (keccak256 e (encodePacked [B32 pid, Addr p, Addr t, U256 a, B32 r]))])"
  assume h: "\<not> hasRole (pp_roles (fst w)) PAYMENT_MANAGER_ROLE (msg_sender c)
        \<and> p \<noteq> 0 \<and> t \<noteq> 0 \<and> a \<noteq> 0 \<and> paymentId (payments (fst w) pid) = 0
        \<and> \<not> processedPayments (fst w)
              (keccak256 e (encodePacked [B32 pid, Addr p, Addr t, U256 a]))
        \<and> (\<forall>signer. ECDSA_recover e ?h sig = Some signer
              \<longrightarrow> \<not> hasRole (pp_roles (fst w)) PAYMENT_MANAGER_ROLE signer)"
  then have chk: "checkSignature e c (fst w) pid p t a r sig
      = Some (case ECDSA_recover e ?h sig of None \<Rightarrow> ECDSAInvalidSignature
              | Some signer \<Rightarrow> Revert ''Invalid signature'')"
    by (auto simp: checkSignature_def Let_def split: option.splits)
  have kind: "kind_of (case ECDSA_recover e ?h sig of None \<Rightarrow> ECDSAInvalidSignature
              | Some signer \<Rightarrow> Revert ''Invalid signature'') = AuthorizationError"
    by (simp add: validation_reasons_def authorization_reasons_def split: option.splits)
  from h chk have "processPayment e c pid p t a r sig w
      = Inl (case ECDSA_recover e ?h sig of None \<Rightarrow> ECDSAInvalidSignature
              | Some signer \<Rightarrow> Revert ''Invalid signature'')"
    by (simp add: processPayment_def Let_def word_greater_zero_iff)
  with kind show "\<exists>err. processPayment e c pid p t a r sig w = Inl err
             \<and> kind_of err = AuthorizationError"
    by blast
qed

lemma signed_payment:
  "\<exists>w'. processPayment signing_env payer3 104 4 20 1000000 99
       (be_bytes 32 (keccak256 signing_env (encodePacked [Str eip191_prefix,
          B32 (keccak256 signing_env
                 (encodePacked [B32 104, Addr 4, Addr 20, U256 1000000, B32 99]))])))
       (processor1, ledger1) = Inr w'"
  by (simp add: processPayment_def Let_def processor1_values zero_PaymentRecord_def
      checkSignature_def deployer_values erc20_transferFrom_def erc20_move_def ledger1_values
      signing_env_def)

theorem C5_witness:
  "hasRole (pp_roles processor1) PAYMENT_MANAGER_ROLE (msg_sender deployer)
   \<and> processPayment signing_env deployer 28721 4 20 100000000 99 [1, 2, 3] (processor1, ledger1)
       = Inr paid_p1
   \<and> \<not> hasRole (pp_roles processor1) PAYMENT_MANAGER_ROLE (msg_sender payer3)
   \<and> \<not> isl (processPayment signing_env payer3 104 4 20 1000000 99
        (be_bytes 32 (keccak256 signing_env (encodePacked [Str eip191_prefix,
           B32 (keccak256 signing_env
                  (encodePacked [B32 104, Addr 4, Addr 20, U256 1000000, B32 99]))])))
        (processor1, ledger1))
   \<and> ECDSA_recover signing_env
        (keccak256 signing_env (encodePacked [Str eip191_prefix,
           B32 (keccak256 signing_env
                  (encodePacked [B32 104, Addr 4, Addr 20, U256 1000000, B32 99]))]))
        (be_bytes 32 (keccak256 signing_env (encodePacked [Str eip191_prefix,
           B32 (keccak256 signing_env
                  (encodePacked [B32 104, Addr 4, Addr 20, U256 1000000, B32 99]))])))
       = Some 2
   \<and> hasRole (pp_roles processor1) PAYMENT_MANAGER_ROLE 2
   \<and> (\<exists>err. processPayment signing_env payer3 104 4 20 1000000 99 [] (processor1, ledger1)
              = Inl err \<and> kind_of err = AuthorizationError)"
proof -
  let ?sig = "be_bytes 32 (keccak256 signing_env (encodePacked [Str eip191_prefix,
           B32 (keccak256 signing_env
                  (encodePacked [B32 104, Addr 4, Addr 20, U256 1000000, B32 99]))]))"
  have env: "signing_env\<lparr>ECDSA_recover := (\<lambda>h sig. None)\<rparr> = example_env"
    by (simp add: signing_env_def example_env_def)
  have r1: "hasRole (pp_roles processor1) PAYMENT_MANAGER_ROLE (msg_sender deployer)"
    and r3: "\<not> hasRole (pp_roles processor1) PAYMENT_MANAGER_ROLE (msg_sender payer3)"
    by (simp_all add: deployer_values processor1_values)
  from C5_processPayment_authorization
         [where w = "(processor1, ledger1)" and c = deployer and e = signing_env
            and recover' = "\<lambda>h sig. None" and sig = "[1, 2, 3]" and sig' = "[]"
            and pid = 28721 and p = 4 and t = 20 and a = 100000000 and r = 99]
       r1 env paid_p1_accepted
  have a: "processPayment signing_env deployer 28721 4 20 100000000 99 [1, 2, 3]
      (processor1, ledger1) = Inr paid_p1"
    by simp
  from signed_payment obtain w'
    where ok: "processPayment signing_env payer3 104 4 20 1000000 99 ?sig (processor1, ledger1)
        = Inr w'"
    by blast
  from C5_processPayment_authorization
         [where w = "(processor1, ledger1)" and c = payer3 and e = signing_env and sig = ?sig
            and pid = 104 and p = 4 and t = 20 and a = 1000000 and r = 99 and w' = w']
       r3 ok
  obtain signer where s: "ECDSA_recover signing_env
        (keccak256 signing_env (encodePacked [Str eip191_prefix,
           B32 (keccak256 signing_env
                  (encodePacked [B32 104, Addr 4, Addr 20, U256 1000000, B32 99]))])) ?sig
        = Some signer"
      and sr: "hasRole (pp_roles processor1) PAYMENT_MANAGER_ROLE signer"
    by auto
  from s have s2: "signer = 2" by (simp add: signing_env_def)
  from C5_processPayment_authorization
         [where w = "(processor1, ledger1)" and c = payer3 and e = signing_env and sig = "[]"
            and pid = 104 and p = 4 and t = 20 and a = 1000000 and r = 99]
       r3
  have c: "\<exists>err. processPayment signing_env payer3 104 4 20 1000000 99 [] (processor1, ledger1)
              = Inl err \<and> kind_of err = AuthorizationError"
    by (simp add: processor1_values zero_PaymentRecord_def signing_env_def be_bytes_def)
  from r1 a r3 ok s sr s2 c show ?thesis by simp
qed

end
